theory Spec2Isabelle
  imports Complex_Main "HOL-Library.Product_Lexorder" "HOL-Library.List_Lexorder" "HOL-Library.Char_ord"
begin

section \<open>Data model\<close>

text \<open>
  Numbers of the source are modelled as exact rationals: the rounding of IEEE doubles
  is not part of the embedding. The one place where the source produces NaN from the
  values modelled here (a bucket record that lacks the fields the bucket algorithms
  read) is kept as \<open>None\<close> in the \<open>resetTime\<close> of a result; NaN and the infinities
  given as options to the constructor are values of their own. Division is the
  division of \<open>rat\<close>; theorems that read a quotient assume that its divisor is not zero.
\<close>

text \<open>
  A value kept by a store under one key: a JavaScript object whose properties are
  written by the four algorithms and by \<open>MemoryStore.increment\<close>. A property that is
  absent (\<open>undefined\<close>) is \<open>None\<close>.
\<close>

record entry =
  count :: "rat option"
  requests :: "rat list option"
  tokens :: "rat option"
  lastRefill :: "rat option"
  water :: "rat option"
  lastLeak :: "rat option"

definition empty_entry :: entry where
  "empty_entry = \<lparr>count = None, requests = None, tokens = None, lastRefill = None,
     water = None, lastLeak = None\<rparr>"

text \<open>
  A thrown value (the reason of a rejected promise). JavaScript throws any value: an
  \<open>Error\<close> object with its \<open>message\<close>; \<open>null\<close> or \<open>undefined\<close>, as when a promise is
  rejected with no reason; or another value, such as a string, whose \<open>message\<close>
  property is \<open>undefined\<close>.
\<close>

datatype exn = Error string | ThrownNullish | ThrownValue

text \<open>
  An asynchronous operation on a store of state type \<open>'s\<close>: it either raises or
  returns, and leaves a new state in both cases.
\<close>

type_synonym ('s, 'a) io = "'s \<Rightarrow> (exn + 'a) \<times> 's"

definition return_io :: "'a \<Rightarrow> ('s, 'a) io" where
  "return_io a s = (Inr a, s)"

definition bind_io :: "('s, 'a) io \<Rightarrow> ('a \<Rightarrow> ('s, 'b) io) \<Rightarrow> ('s, 'b) io" where
  "bind_io m f s = (case m s of (Inl e, s') \<Rightarrow> (Inl e, s') | (Inr a, s') \<Rightarrow> f a s')"

text \<open>JavaScript truthiness of an optional number (\<open>if (ttl)\<close>, \<open>timestamp ? ... : ...\<close>).\<close>

fun truthy :: "rat option \<Rightarrow> bool" where
  "truthy None = False"
| "truthy (Some x) = (x \<noteq> 0)"

text \<open>
  The Store contract, as the algorithms and the limiter call it. \<open>store_increment\<close>
  takes \<open>windowMs\<close> and the optional \<open>timestamp\<close> and returns the \<open>count\<close> of its
  result object.
\<close>

record 's store_ops =
  store_get :: "string \<Rightarrow> ('s, entry option) io"
  store_set :: "string \<Rightarrow> entry \<Rightarrow> rat option \<Rightarrow> ('s, unit) io"
  store_increment :: "string \<Rightarrow> rat \<Rightarrow> rat option \<Rightarrow> ('s, rat) io"
  store_decrement :: "string \<Rightarrow> ('s, unit) io"
  store_reset :: "string \<Rightarrow> ('s, unit) io"

section \<open>MemoryStore\<close>

text \<open>
  A pending \<open>setTimeout\<close> handle: its delay, and whether \<open>clearTimeout\<close> was called on
  it. \<open>set\<close> clears the handle of the key but leaves it in the \<open>timers\<close> map when no new
  TTL is given.
\<close>

record timer =
  delay :: rat
  cleared :: bool

record memory_store =
  store :: "string \<rightharpoonup> entry"
  timers :: "string \<rightharpoonup> timer"

definition new_memory_store :: memory_store where
  "new_memory_store = \<lparr>store = Map.empty, timers = Map.empty\<rparr>"

definition clear_timer :: "string \<Rightarrow> (string \<rightharpoonup> timer) \<Rightarrow> (string \<rightharpoonup> timer)" where
  "clear_timer key ts = (case ts key of None \<Rightarrow> ts | Some t \<Rightarrow> ts(key \<mapsto> t\<lparr>cleared := True\<rparr>))"

definition mem_get :: "string \<Rightarrow> memory_store \<Rightarrow> entry option" where
  "mem_get key s = store s key"

definition mem_set :: "string \<Rightarrow> entry \<Rightarrow> rat option \<Rightarrow> memory_store \<Rightarrow> memory_store" where
  "mem_set key v ttl s =
     (let st = (store s)(key \<mapsto> v);
          ts = clear_timer key (timers s)
      in if truthy ttl then \<lparr>store = st, timers = ts(key \<mapsto> \<lparr>delay = the ttl, cleared = False\<rparr>)\<rparr>
         else \<lparr>store = st, timers = ts\<rparr>)"


definition mem_increment :: "string \<Rightarrow> rat \<Rightarrow> rat option \<Rightarrow> memory_store \<Rightarrow> rat \<times> memory_store" where
  "mem_increment key windowMs timestamp s =
     (case store s key of
        None \<Rightarrow>
          (let v = (if truthy timestamp then empty_entry\<lparr>requests := Some [the timestamp]\<rparr>
                    else empty_entry\<lparr>count := Some 1\<rparr>)
           in (1, mem_set key v (Some windowMs) s))
      | Some data \<Rightarrow>
          if truthy timestamp then
            (let rs = (case requests data of None \<Rightarrow> [] | Some l \<Rightarrow> l) @ [the timestamp];
                 data' = data\<lparr>requests := Some rs\<rparr>
             in (of_nat (length rs), mem_set key data' (Some windowMs) s))
          else
            (let c = (case count data of None \<Rightarrow> 0 | Some c \<Rightarrow> c) + 1;
                 data' = data\<lparr>count := Some c\<rparr>
             in (c, mem_set key data' (Some windowMs) s)))"

definition mem_decrement :: "string \<Rightarrow> memory_store \<Rightarrow> memory_store" where
  "mem_decrement key s =
     (case store s key of
        None \<Rightarrow> s
      | Some data \<Rightarrow>
          (case count data of
             Some c \<Rightarrow> s\<lparr>store := (store s)(key \<mapsto> data\<lparr>count := Some (max 0 (c - 1))\<rparr>)\<rparr>
           | None \<Rightarrow>
               (case requests data of
                  None \<Rightarrow> s
                | Some l \<Rightarrow>
                    if length l > 0
                    then s\<lparr>store := (store s)(key \<mapsto> data\<lparr>requests := Some (butlast l)\<rparr>)\<rparr>
                    else s)))"

definition mem_reset :: "string \<Rightarrow> memory_store \<Rightarrow> memory_store" where
  "mem_reset key s = \<lparr>store = (store s)(key := None), timers = (timers s)(key := None)\<rparr>"

text \<open>\<open>MemoryStore\<close> as an implementation of the Store contract; none of its operations raises.\<close>

definition memory_ops :: "memory_store store_ops" where
  "memory_ops =
     \<lparr>store_get = (\<lambda>key s. (Inr (mem_get key s), s)),
      store_set = (\<lambda>key v ttl s. (Inr (), mem_set key v ttl s)),
      store_increment = (\<lambda>key w ts s. (case mem_increment key w ts s of (c, s') \<Rightarrow> (Inr c, s'))),
      store_decrement = (\<lambda>key s. (Inr (), mem_decrement key s)),
      store_reset = (\<lambda>key s. (Inr (), mem_reset key s))\<rparr>"

section \<open>Algorithms\<close>

text \<open>
  The options object an algorithm receives. \<open>windowMs\<close> is always supplied by the
  limiter; \<open>capacity\<close>, \<open>refillRate\<close> and \<open>leakRate\<close> fall back to the defaults of the
  destructuring patterns (10, 1, 1).
\<close>

record algo_options =
  opt_windowMs :: rat
  opt_capacity :: "rat option"
  opt_refillRate :: "rat option"
  opt_leakRate :: "rat option"

record result =
  res_count :: rat
  res_resetTime :: "rat option"

fun default_to :: "rat \<Rightarrow> rat option \<Rightarrow> rat" where
  "default_to d None = d"
| "default_to d (Some x) = x"

text \<open>\<open>validRequests[0] || now\<close>\<close>

fun oldestRequest :: "rat list \<Rightarrow> rat \<Rightarrow> rat" where
  "oldestRequest [] now = now"
| "oldestRequest (x # xs) now = (if x = 0 then now else x)"

definition sliding_first :: "'s store_ops \<Rightarrow> string \<Rightarrow> rat \<Rightarrow> rat \<Rightarrow> ('s, result) io" where
  "sliding_first ops key windowMs now =
     bind_io (store_increment ops key windowMs (Some now))
       (\<lambda>_. return_io \<lparr>res_count = 1, res_resetTime = Some (now + windowMs)\<rparr>)"

definition sliding_window_check :: "'s store_ops \<Rightarrow> string \<Rightarrow> algo_options \<Rightarrow> rat \<Rightarrow> ('s, result) io" where
  "sliding_window_check ops key options now =
     (let windowMs = opt_windowMs options;
          windowStart = now - windowMs
      in bind_io (store_get ops key)
           (\<lambda>data. case data of
                None \<Rightarrow> sliding_first ops key windowMs now
              | Some d \<Rightarrow>
                  (case requests d of
                     None \<Rightarrow> sliding_first ops key windowMs now
                   | Some rs \<Rightarrow>
                       (let validRequests = filter (\<lambda>timestamp. timestamp > windowStart) rs;
                            cnt = of_nat (length validRequests);
                            validRequests' = validRequests @ [now]
                        in bind_io (store_set ops key (empty_entry\<lparr>requests := Some validRequests'\<rparr>) (Some windowMs))
                             (\<lambda>_. return_io
                                \<lparr>res_count = cnt + 1,
                                 res_resetTime = Some (oldestRequest validRequests' now + windowMs)\<rparr>)))))"

text \<open>
  The decimal rendering of the window index inside the template string
  \<open>`${key}:${windowKey}`\<close>.
\<close>

definition digit_char :: "nat \<Rightarrow> char" where
  "digit_char n = char_of (48 + n)"

function string_of_nat :: "nat \<Rightarrow> string" where
  "string_of_nat n = (if n < 10 then [digit_char n] else string_of_nat (n div 10) @ [digit_char (n mod 10)])"
  by pat_completeness auto
termination
  by (relation "measure id") auto

declare string_of_nat.simps [simp del]

definition string_of_int :: "int \<Rightarrow> string" where
  "string_of_int i = (if i < 0 then CHR ''-'' # string_of_nat (nat (- i)) else string_of_nat (nat i))"

definition windowKey :: "rat \<Rightarrow> rat \<Rightarrow> int" where
  "windowKey now windowMs = \<lfloor>now / windowMs\<rfloor>"

definition fullKey :: "string \<Rightarrow> int \<Rightarrow> string" where
  "fullKey key wk = key @ '':'' @ string_of_int wk"

definition fixed_window_check :: "'s store_ops \<Rightarrow> string \<Rightarrow> algo_options \<Rightarrow> rat \<Rightarrow> ('s, result) io" where
  "fixed_window_check ops key options now =
     (let windowMs = opt_windowMs options;
          wk = windowKey now windowMs
      in bind_io (store_increment ops (fullKey key wk) windowMs None)
           (\<lambda>c. return_io \<lparr>res_count = c, res_resetTime = Some ((of_int wk + 1) * windowMs)\<rparr>))"

definition token_bucket_check :: "'s store_ops \<Rightarrow> string \<Rightarrow> algo_options \<Rightarrow> rat \<Rightarrow> ('s, result) io" where
  "token_bucket_check ops key options now =
     (let capacity = default_to 10 (opt_capacity options);
          refillRate = default_to 1 (opt_refillRate options);
          windowMs = opt_windowMs options
      in bind_io (store_get ops key)
           (\<lambda>data.
              let consume = (\<lambda>tks.
                    if tks \<ge> 1 then
                      bind_io (store_set ops key
                                 (empty_entry\<lparr>tokens := Some (tks - 1), lastRefill := Some now\<rparr>)
                                 (Some (windowMs * capacity)))
                        (\<lambda>_. return_io
                           \<lparr>res_count = capacity - (tks - 1),
                            res_resetTime = Some (now + (1 / refillRate) * windowMs)\<rparr>)
                    else
                      return_io
                        \<lparr>res_count = capacity + 1,
                         res_resetTime = Some (now + ((1 - tks) / refillRate) * windowMs)\<rparr>)
              in case data of
                   None \<Rightarrow> consume capacity
                 | Some d \<Rightarrow>
                     (case (tokens d, lastRefill d) of
                        (Some t, Some l) \<Rightarrow>
                          (let timePassed = now - l;
                               tokensToAdd = (timePassed / windowMs) * refillRate
                           in consume (min capacity (t + tokensToAdd)))
                      | _ \<Rightarrow> return_io \<lparr>res_count = capacity + 1, res_resetTime = None\<rparr>)))"

definition leaky_bucket_check :: "'s store_ops \<Rightarrow> string \<Rightarrow> algo_options \<Rightarrow> rat \<Rightarrow> ('s, result) io" where
  "leaky_bucket_check ops key options now =
     (let capacity = default_to 10 (opt_capacity options);
          leakRate = default_to 1 (opt_leakRate options);
          windowMs = opt_windowMs options
      in bind_io (store_get ops key)
           (\<lambda>data.
              let add = (\<lambda>wtr.
                    if wtr < capacity then
                      bind_io (store_set ops key
                                 (empty_entry\<lparr>water := Some (wtr + 1), lastLeak := Some now\<rparr>)
                                 (Some (windowMs * capacity)))
                        (\<lambda>_. return_io
                           \<lparr>res_count = wtr + 1,
                            res_resetTime = Some (now + ((wtr + 1) / leakRate) * windowMs)\<rparr>)
                    else
                      return_io
                        \<lparr>res_count = capacity + 1,
                         res_resetTime = Some (now + ((wtr - capacity + 1) / leakRate) * windowMs)\<rparr>)
              in case data of
                   None \<Rightarrow> add 0
                 | Some d \<Rightarrow>
                     (case (water d, lastLeak d) of
                        (Some w, Some l) \<Rightarrow>
                          (let timePassed = now - l;
                               waterLeaked = (timePassed / windowMs) * leakRate
                           in add (max 0 (w - waterLeaked)))
                      | _ \<Rightarrow> return_io \<lparr>res_count = capacity + 1, res_resetTime = None\<rparr>)))"

datatype algorithm = SlidingWindow | FixedWindow | TokenBucket | LeakyBucket

fun algorithm_check :: "algorithm \<Rightarrow> 's store_ops \<Rightarrow> string \<Rightarrow> algo_options \<Rightarrow> rat \<Rightarrow> ('s, result) io" where
  "algorithm_check SlidingWindow = sliding_window_check"
| "algorithm_check FixedWindow = fixed_window_check"
| "algorithm_check TokenBucket = token_bucket_check"
| "algorithm_check LeakyBucket = leaky_bucket_check"

section \<open>RateLimiter\<close>

text \<open>
  The \<open>max\<close> option: a number, or a function of the request that returns a number or
  raises (a rejected promise is a raise at the \<open>await\<close>).
\<close>

datatype 'r quota = Static rat | Dynamic "'r \<Rightarrow> exn + rat"

record 'r limiter_options =
  cfg_windowMs :: rat
  cfg_max :: "'r quota"
  cfg_algorithm :: algorithm

text \<open>
  The second argument of \<open>check\<close>: \<open>req\<close> is handed to a dynamic \<open>max\<close>; the object is
  spread over \<open>{windowMs, max}\<close>, so the properties the algorithms read can be
  overridden per call.
\<close>

record 'r ctx =
  req :: 'r
  ctx_windowMs :: "rat option"
  ctx_capacity :: "rat option"
  ctx_refillRate :: "rat option"
  ctx_leakRate :: "rat option"

definition no_overrides :: "'r \<Rightarrow> 'r ctx" where
  "no_overrides r = \<lparr>req = r, ctx_windowMs = None, ctx_capacity = None,
     ctx_refillRate = None, ctx_leakRate = None\<rparr>"

text \<open>
  The object \<open>check\<close> resolves to. \<open>limit\<close> and \<open>remaining\<close> have the type of the \<open>max\<close>
  option, because the catch branch copies \<open>this.options.max\<close> into them as it is.
\<close>

record 'r decision =
  allowed :: bool
  limit :: "'r quota"
  current :: rat
  remaining :: "'r quota"
  resetTime :: "rat option"
  retryAfter :: "rat option"
  error :: "string option"

datatype config_fault = BadWindowMs | BadMaxType | BadMaxValue | BadAlgorithm
  | MissingStoreMethod string | BadStore

text \<open>
  What \<open>check\<close>, \<open>reset\<close> and the constructor raise themselves: the error for a bad
  key, a configuration error, and the \<open>TypeError\<close> of reading a property of \<open>null\<close> or
  \<open>undefined\<close>.
\<close>

datatype failure = KeyError | ConfigurationError config_fault | TypeError

text \<open>
  \<open>error.message\<close>: the message of an \<open>Error\<close>, \<open>undefined\<close> for a value that has none,
  and a \<open>TypeError\<close> for \<open>null\<close> and \<open>undefined\<close>.
\<close>

fun message :: "exn \<Rightarrow> failure + string option" where
  "message (Error m) = Inr (Some m)"
| "message ThrownValue = Inr None"
| "message ThrownNullish = Inl TypeError"

fun resolve_max :: "'r quota \<Rightarrow> 'r \<Rightarrow> exn + rat" where
  "resolve_max (Static n) r = Inr n"
| "resolve_max (Dynamic f) r = f r"

definition algo_options_of :: "'r limiter_options \<Rightarrow> 'r ctx \<Rightarrow> algo_options" where
  "algo_options_of cfg c =
     \<lparr>opt_windowMs = default_to (cfg_windowMs cfg) (ctx_windowMs c),
      opt_capacity = ctx_capacity c,
      opt_refillRate = ctx_refillRate c,
      opt_leakRate = ctx_leakRate c\<rparr>"

text \<open>The object built in the \<open>try\<close> block; \<open>tnow\<close> is the value of its own \<open>Date.now()\<close>.\<close>

definition decide :: "rat \<Rightarrow> result \<Rightarrow> rat \<Rightarrow> 'r decision" where
  "decide mx res tnow =
     \<lparr>allowed = (res_count res \<le> mx),
      limit = Static mx,
      current = res_count res,
      remaining = Static (max 0 (mx - res_count res)),
      resetTime = res_resetTime res,
      retryAfter = (if res_count res > mx then map_option (\<lambda>r. r - tnow) (res_resetTime res)
                    else Some 0),
      error = None\<rparr>"

text \<open>The object built in the \<open>catch\<close> block, given the value of \<open>error.message\<close>.\<close>

definition fail_open :: "'r limiter_options \<Rightarrow> string option \<Rightarrow> rat \<Rightarrow> 'r decision" where
  "fail_open cfg m tnow =
     \<lparr>allowed = True,
      limit = cfg_max cfg,
      current = 0,
      remaining = cfg_max cfg,
      resetTime = Some (tnow + cfg_windowMs cfg),
      retryAfter = Some 0,
      error = m\<rparr>"

text \<open>
  The \<open>catch\<close> block. It reads \<open>error.message\<close> with no guard and outside any \<open>try\<close>,
  so the \<open>TypeError\<close> of a \<open>null\<close> or \<open>undefined\<close> reason leaves \<open>check\<close>.
\<close>

definition catch_block :: "'r limiter_options \<Rightarrow> exn \<Rightarrow> rat \<Rightarrow> failure + 'r decision" where
  "catch_block cfg e tnow =
     (case message e of
        Inl f \<Rightarrow> Inl f
      | Inr m \<Rightarrow> Inr (fail_open cfg m tnow))"

text \<open>
  \<open>RateLimiter.check\<close>. \<open>now\<close> is the clock value the algorithm reads, \<open>tnow\<close> the value
  the limiter reads afterwards, when it builds the decision.
\<close>

definition check ::
  "'s store_ops \<Rightarrow> 'r limiter_options \<Rightarrow> string \<Rightarrow> 'r ctx \<Rightarrow> rat \<Rightarrow> rat \<Rightarrow> 's
     \<Rightarrow> (failure + 'r decision) \<times> 's" where
  "check ops cfg key c now tnow s =
     (if key = [] then (Inl KeyError, s)
      else case resolve_max (cfg_max cfg) (req c) of
             Inl e \<Rightarrow> (catch_block cfg e tnow, s)
           | Inr mx \<Rightarrow>
               (case algorithm_check (cfg_algorithm cfg) ops key (algo_options_of cfg c) now s of
                  (Inl e, s') \<Rightarrow> (catch_block cfg e tnow, s')
                | (Inr res, s') \<Rightarrow> (Inr (decide mx res tnow), s')))"

text \<open>\<open>RateLimiter.reset\<close>: the store raises through it.\<close>

definition reset :: "'s store_ops \<Rightarrow> string \<Rightarrow> 's \<Rightarrow> (failure + exn + unit) \<times> 's" where
  "reset ops key s =
     (if key = [] then (Inl KeyError, s)
      else case store_reset ops key s of (r, s') \<Rightarrow> (Inr r, s'))"

section \<open>RedisStore\<close>

text \<open>
  The Redis server behind the client, as far as \<open>RedisStore\<close> uses it. A string value
  is kept by what it parses to: \<open>RInt\<close> is the decimal text of an integer (what \<open>INCR\<close>
  writes), \<open>RJson\<close> the \<open>JSON.stringify\<close> text of a stored object. A sorted set is a
  list of (score, member) pairs. Commands follow the Redis command reference; a
  command on a value of the wrong type raises, and the server is otherwise healthy.
\<close>

datatype rvalue = RInt int | RJson entry | RZSet "(rat \<times> string) list"

record redis =
  db :: "string \<rightharpoonup> rvalue"
  expiry :: "string \<rightharpoonup> rat"

definition wrongtype :: exn where
  "wrongtype = Error ''WRONGTYPE Operation against a key holding the wrong kind of value''"

definition not_an_integer :: exn where
  "not_an_integer = Error ''ERR value is not an integer or out of range''"

definition r_type :: "string \<Rightarrow> redis \<Rightarrow> string" where
  "r_type k r = (case db r k of None \<Rightarrow> ''none'' | Some (RZSet zs) \<Rightarrow> ''zset'' | Some v \<Rightarrow> ''string'')"

definition r_get :: "string \<Rightarrow> redis \<Rightarrow> exn + rvalue option" where
  "r_get k r = (case db r k of Some (RZSet zs) \<Rightarrow> Inl wrongtype | v \<Rightarrow> Inr v)"

definition r_setex :: "string \<Rightarrow> rat \<Rightarrow> rvalue \<Rightarrow> redis \<Rightarrow> redis" where
  "r_setex k secs v r = \<lparr>db = (db r)(k \<mapsto> v), expiry = (expiry r)(k \<mapsto> secs)\<rparr>"

definition r_add :: "int \<Rightarrow> string \<Rightarrow> redis \<Rightarrow> (exn + int) \<times> redis" where
  "r_add n k r =
     (case db r k of
        None \<Rightarrow> (Inr n, r\<lparr>db := (db r)(k \<mapsto> RInt n)\<rparr>)
      | Some (RInt i) \<Rightarrow> (Inr (i + n), r\<lparr>db := (db r)(k \<mapsto> RInt (i + n))\<rparr>)
      | Some (RJson v) \<Rightarrow> (Inl not_an_integer, r)
      | Some (RZSet zs) \<Rightarrow> (Inl wrongtype, r))"

definition r_incr :: "string \<Rightarrow> redis \<Rightarrow> (exn + int) \<times> redis" where
  "r_incr = r_add 1"

definition r_decr :: "string \<Rightarrow> redis \<Rightarrow> (exn + int) \<times> redis" where
  "r_decr = r_add (- 1)"

definition r_expire :: "string \<Rightarrow> rat \<Rightarrow> redis \<Rightarrow> redis" where
  "r_expire k secs r = (if db r k = None then r else r\<lparr>expiry := (expiry r)(k \<mapsto> secs)\<rparr>)"

definition r_del :: "string \<Rightarrow> redis \<Rightarrow> redis" where
  "r_del k r = \<lparr>db = (db r)(k := None), expiry = (expiry r)(k := None)\<rparr>"

text \<open>A sorted set that becomes empty is removed with its key.\<close>

definition put_zset :: "string \<Rightarrow> (rat \<times> string) list \<Rightarrow> redis \<Rightarrow> redis" where
  "put_zset k zs r = (if zs = [] then r_del k r else r\<lparr>db := (db r)(k \<mapsto> RZSet zs)\<rparr>)"

definition r_zremrangebyscore_upto :: "string \<Rightarrow> rat \<Rightarrow> redis \<Rightarrow> (exn + unit) \<times> redis" where
  "r_zremrangebyscore_upto k mx r =
     (case db r k of
        None \<Rightarrow> (Inr (), r)
      | Some (RZSet zs) \<Rightarrow> (Inr (), put_zset k (filter (\<lambda>(sc, m). mx < sc) zs) r)
      | Some v \<Rightarrow> (Inl wrongtype, r))"

definition r_zadd :: "string \<Rightarrow> rat \<Rightarrow> string \<Rightarrow> redis \<Rightarrow> (exn + unit) \<times> redis" where
  "r_zadd k sc m r =
     (case db r k of
        None \<Rightarrow> (Inr (), put_zset k [(sc, m)] r)
      | Some (RZSet zs) \<Rightarrow> (Inr (), put_zset k (filter (\<lambda>(sc', m'). m' \<noteq> m) zs @ [(sc, m)]) r)
      | Some v \<Rightarrow> (Inl wrongtype, r))"

definition r_zcard :: "string \<Rightarrow> redis \<Rightarrow> exn + nat" where
  "r_zcard k r =
     (case db r k of
        None \<Rightarrow> Inr 0
      | Some (RZSet zs) \<Rightarrow> Inr (length zs)
      | Some v \<Rightarrow> Inl wrongtype)"

text \<open>\<open>ZPOPMAX\<close>: the member with the highest score goes, the greatest member among equal scores.\<close>

definition r_zpopmax :: "string \<Rightarrow> redis \<Rightarrow> (exn + unit) \<times> redis" where
  "r_zpopmax k r =
     (case db r k of
        None \<Rightarrow> (Inr (), r)
      | Some (RZSet zs) \<Rightarrow> (Inr (), put_zset k (remove1 (Max (set zs)) zs) r)
      | Some v \<Rightarrow> (Inl wrongtype, r))"

text \<open>
  \<open>RedisStore\<close>: the client state is the state of the store; \<open>prefix\<close> and
  \<open>defaultExpiry\<close> are fixed at construction.
\<close>

record redis_store_config =
  prefix :: string
  defaultExpiry :: rat

definition getKey :: "redis_store_config \<Rightarrow> string \<Rightarrow> string" where
  "getKey rc key = prefix rc @ key"

text \<open>
  \<open>get\<close>: a failing read and an absent key are both \<open>null\<close>. The text of an integer
  parses to a number, which has none of the properties the algorithms read and is
  falsy when it is 0.
\<close>

definition redis_get :: "redis_store_config \<Rightarrow> string \<Rightarrow> redis \<Rightarrow> entry option" where
  "redis_get rc key r =
     (case r_get (getKey rc key) r of
        Inl e \<Rightarrow> None
      | Inr None \<Rightarrow> None
      | Inr (Some (RJson v)) \<Rightarrow> Some v
      | Inr (Some (RInt i)) \<Rightarrow> (if i = 0 then None else Some empty_entry)
      | Inr (Some (RZSet zs)) \<Rightarrow> None)"

definition redis_set :: "redis_store_config \<Rightarrow> string \<Rightarrow> entry \<Rightarrow> rat option \<Rightarrow> redis \<Rightarrow> redis" where
  "redis_set rc key v ttl r =
     (let expiry = (if truthy ttl then of_int \<lceil>the ttl / 1000\<rceil> else defaultExpiry rc)
      in r_setex (getKey rc key) expiry (RJson v) r)"

text \<open>
  \<open>increment\<close>. \<open>now\<close> is the value of its own \<open>Date.now()\<close>, \<open>member\<close> the text of
  \<open>`${timestamp}-${Math.random()}`\<close>.
\<close>

definition redis_increment ::
  "redis_store_config \<Rightarrow> rat \<Rightarrow> string \<Rightarrow> string \<Rightarrow> rat \<Rightarrow> rat option \<Rightarrow> redis \<Rightarrow> (exn + rat) \<times> redis" where
  "redis_increment rc now member key windowMs timestamp r =
     (let fullKey' = getKey rc key in
      if truthy timestamp then
        (let scoreKey = fullKey' @ '':scores'';
             windowStart = now - windowMs
         in case r_zremrangebyscore_upto scoreKey windowStart r of
              (Inl e, r1) \<Rightarrow> (Inl e, r1)
            | (Inr u, r1) \<Rightarrow>
                (case r_zadd scoreKey (the timestamp) member r1 of
                   (Inl e, r2) \<Rightarrow> (Inl e, r2)
                 | (Inr u, r2) \<Rightarrow>
                     (let r3 = r_expire scoreKey (of_int \<lceil>windowMs / 1000\<rceil> + 1) r2
                      in case r_zcard scoreKey r3 of
                           Inl e \<Rightarrow> (Inl e, r3)
                         | Inr n \<Rightarrow> (Inr (of_nat n), r3))))
      else
        (case r_incr fullKey' r of
           (Inl e, r1) \<Rightarrow> (Inl e, r1)
         | (Inr cnt, r1) \<Rightarrow>
             if cnt = 1 \<and> windowMs \<noteq> 0
             then (Inr (of_int cnt), r_expire fullKey' (of_int \<lceil>windowMs / 1000\<rceil>) r1)
             else (Inr (of_int cnt), r1)))"

text \<open>\<open>decrement\<close>: every failure inside it is logged and dropped.\<close>

definition redis_decrement :: "redis_store_config \<Rightarrow> string \<Rightarrow> redis \<Rightarrow> redis" where
  "redis_decrement rc key r =
     (let fullKey' = getKey rc key;
          type = r_type fullKey' r
      in if type = ''zset'' then snd (r_zpopmax (fullKey' @ '':scores'') r)
         else (case r_get fullKey' r of
                 Inl e \<Rightarrow> r
               | Inr (Some (RInt i)) \<Rightarrow> if i > 0 then snd (r_decr fullKey' r) else r
               | Inr v \<Rightarrow> r))"

definition redis_reset :: "redis_store_config \<Rightarrow> string \<Rightarrow> redis \<Rightarrow> redis" where
  "redis_reset rc key r = r_del (getKey rc key @ '':scores'') (r_del (getKey rc key) r)"

definition redis_ops :: "redis_store_config \<Rightarrow> rat \<Rightarrow> string \<Rightarrow> redis store_ops" where
  "redis_ops rc now member =
     \<lparr>store_get = (\<lambda>key r. (Inr (redis_get rc key r), r)),
      store_set = (\<lambda>key v ttl r. (Inr (), redis_set rc key v ttl r)),
      store_increment = redis_increment rc now member,
      store_decrement = (\<lambda>key r. (Inr (), redis_decrement rc key r)),
      store_reset = (\<lambda>key r. (Inr (), redis_reset rc key r))\<rparr>"

section \<open>Construction\<close>

text \<open>
  The values an option can hold, as far as \<open>_validateOptions\<close> and \<open>_initializeStore\<close>
  look at them: \<open>typeof\<close>, truthiness, the number or the string, and for an object the
  names of its properties that are functions. A number is finite (\<open>JNum\<close>), \<open>NaN\<close>,
  \<open>Infinity\<close> or \<open>-Infinity\<close>. A function carries the quota it computes.
\<close>

datatype 'r jsval = JUndefined | JNull | JBool bool | JNum rat | JNaN | JInfinity | JNegInfinity
  | JStr string | JFun "'r \<Rightarrow> exn + rat" | JObj "string list"

text \<open>The options object given to the constructor; \<open>None\<close> is a property that is not there.\<close>

record 'r raw_options =
  raw_windowMs :: "'r jsval option"
  raw_max :: "'r jsval option"
  raw_algorithm :: "'r jsval option"
  raw_store :: "'r jsval option"

fun with_default :: "'a \<Rightarrow> 'a option \<Rightarrow> 'a" where
  "with_default d None = d"
| "with_default d (Some x) = x"

fun algorithm_of_name :: "string \<Rightarrow> algorithm option" where
  "algorithm_of_name n =
     (if n = ''sliding-window'' then Some SlidingWindow
      else if n = ''fixed-window'' then Some FixedWindow
      else if n = ''token-bucket'' then Some TokenBucket
      else if n = ''leaky-bucket'' then Some LeakyBucket
      else None)"

text \<open>\<open>typeof v === 'number'\<close> and \<open>typeof v === 'function'\<close>.\<close>

fun is_number :: "'r jsval \<Rightarrow> bool" where
  "is_number (JNum n) = True"
| "is_number JNaN = True"
| "is_number JInfinity = True"
| "is_number JNegInfinity = True"
| "is_number v = False"

fun callable :: "'r jsval \<Rightarrow> bool" where
  "callable (JFun f) = True"
| "callable v = False"

text \<open>
  \<open>v <= 0\<close> for a number \<open>v\<close>: every comparison with \<open>NaN\<close> is false. The source
  evaluates it on numbers only.
\<close>

fun le_zero :: "'r jsval \<Rightarrow> bool" where
  "le_zero (JNum n) = (n \<le> 0)"
| "le_zero JNegInfinity = True"
| "le_zero v = False"

text \<open>
  The object \<open>_validateOptions\<close> returns, as far as the limiter reads it: the values of
  \<open>windowMs\<close> and \<open>max\<close> as they were given, and the algorithm of the validated name.
\<close>

record 'r config =
  conf_windowMs :: "'r jsval"
  conf_max :: "'r jsval"
  conf_algorithm :: algorithm

text \<open>\<open>_validateOptions\<close>: the defaults, then the checks in the order of the source.\<close>

definition validateOptions :: "'r raw_options \<Rightarrow> failure + 'r config" where
  "validateOptions options =
     (let windowMs = with_default (JNum 60000) (raw_windowMs options);
          mx = with_default (JNum 100) (raw_max options);
          alg = with_default (JStr ''sliding-window'') (raw_algorithm options)
      in if \<not> is_number windowMs \<or> le_zero windowMs then Inl (ConfigurationError BadWindowMs)
         else if \<not> is_number mx \<and> \<not> callable mx then Inl (ConfigurationError BadMaxType)
         else if is_number mx \<and> le_zero mx then Inl (ConfigurationError BadMaxValue)
         else
           (case alg of
              JStr n \<Rightarrow>
                (case algorithm_of_name n of
                   None \<Rightarrow> Inl (ConfigurationError BadAlgorithm)
                 | Some a \<Rightarrow> Inr \<lparr>conf_windowMs = windowMs, conf_max = mx, conf_algorithm = a\<rparr>)
            | _ \<Rightarrow> Inl (ConfigurationError BadAlgorithm)))"

text \<open>
  The options \<open>check\<close> works with, for a configuration whose \<open>windowMs\<close> and \<open>max\<close> are
  finite numbers (or \<open>max\<close> a function); the limiter of any other accepted
  configuration is not modelled.
\<close>

definition limiter_options_of :: "'r config \<Rightarrow> 'r limiter_options option" where
  "limiter_options_of cf =
     (case conf_windowMs cf of
        JNum w \<Rightarrow>
          (case conf_max cf of
             JNum m \<Rightarrow> Some \<lparr>cfg_windowMs = w, cfg_max = Static m, cfg_algorithm = conf_algorithm cf\<rparr>
           | JFun f \<Rightarrow> Some \<lparr>cfg_windowMs = w, cfg_max = Dynamic f, cfg_algorithm = conf_algorithm cf\<rparr>
           | _ \<Rightarrow> None)
      | _ \<Rightarrow> None)"

datatype store_choice = UseMemoryStore | UseRedisStore string | UseCustomStore "string list"

fun falsy :: "'r jsval \<Rightarrow> bool" where
  "falsy JUndefined = True"
| "falsy JNull = True"
| "falsy (JBool b) = (\<not> b)"
| "falsy (JNum n) = (n = 0)"
| "falsy JNaN = True"
| "falsy JInfinity = False"
| "falsy JNegInfinity = False"
| "falsy (JStr x) = (x = [])"
| "falsy (JFun f) = False"
| "falsy (JObj ms) = False"

definition startsWith :: "string \<Rightarrow> string \<Rightarrow> bool" where
  "startsWith x p = (take (length p) x = p)"

text \<open>The loop over \<open>requiredMethods\<close>: the first missing method is reported.\<close>

fun first_missing :: "string list \<Rightarrow> string list \<Rightarrow> string option" where
  "first_missing [] ms = None"
| "first_missing (m # rest) ms = (if m \<in> set ms then first_missing rest ms else Some m)"

definition requiredMethods :: "string list" where
  "requiredMethods = [''increment'', ''get'', ''reset'']"

definition initializeStore :: "'r jsval \<Rightarrow> failure + store_choice" where
  "initializeStore st =
     (if falsy st \<or> st = JStr ''memory'' then Inr UseMemoryStore
      else case st of
             JStr x \<Rightarrow> if startsWith x ''redis://'' then Inr (UseRedisStore x)
                       else Inl (ConfigurationError BadStore)
           | JObj ms \<Rightarrow>
               (case first_missing requiredMethods ms of
                  Some m \<Rightarrow> Inl (ConfigurationError (MissingStoreMethod m))
                | None \<Rightarrow> Inr (UseCustomStore ms))
           | _ \<Rightarrow> Inl (ConfigurationError BadStore))"

text \<open>
  The constructor. \<open>_initializeAlgorithm\<close> looks the validated name up in the table of
  the four algorithms and cannot fail after \<open>_validateOptions\<close>.
\<close>

definition construct :: "'r raw_options \<Rightarrow> failure + ('r config \<times> store_choice)" where
  "construct options =
     (case validateOptions options of
        Inl e \<Rightarrow> Inl e
      | Inr cfg \<Rightarrow>
          (case initializeStore (with_default (JStr ''memory'') (raw_store options)) of
             Inl e \<Rightarrow> Inl e
           | Inr st \<Rightarrow> Inr (cfg, st)))"

text \<open>
  The validity of the options as the specification words it: \<open>windowMs\<close> a positive
  number, \<open>max\<close> a positive number or a callable, \<open>algorithm\<close> one of the four names, and
  a \<open>store\<close> given as an object implementing the full Store contract.
\<close>

definition fullContract :: "string list" where
  "fullContract = [''get'', ''set'', ''increment'', ''decrement'', ''reset'', ''resetAll'']"

fun positive_number :: "'r jsval \<Rightarrow> bool" where
  "positive_number (JNum n) = (0 < n)"
| "positive_number JInfinity = True"
| "positive_number v = False"

fun algorithm_name :: "'r jsval \<Rightarrow> bool" where
  "algorithm_name (JStr n) = (n \<in> {''sliding-window'', ''fixed-window'', ''token-bucket'', ''leaky-bucket''})"
| "algorithm_name _ = False"

fun store_object_incomplete :: "string list \<Rightarrow> 'r jsval \<Rightarrow> bool" where
  "store_object_incomplete contract (JObj ms) = (\<not> set contract \<subseteq> set ms)"
| "store_object_incomplete contract _ = False"

definition spec_invalid :: "'r raw_options \<Rightarrow> bool" where
  "spec_invalid options =
     (\<not> positive_number (with_default (JNum 60000) (raw_windowMs options))
      \<or> \<not> (positive_number (with_default (JNum 100) (raw_max options))
            \<or> callable (with_default (JNum 100) (raw_max options)))
      \<or> \<not> algorithm_name (with_default (JStr ''sliding-window'') (raw_algorithm options))
      \<or> store_object_incomplete fullContract (with_default (JStr ''memory'') (raw_store options)))"

text \<open>What the constructor accepts as a store.\<close>

fun store_accepted :: "'r jsval \<Rightarrow> bool" where
  "store_accepted (JObj ms) = (set requiredMethods \<subseteq> set ms)"
| "store_accepted (JStr x) = (x = [] \<or> x = ''memory'' \<or> startsWith x ''redis://'')"
| "store_accepted (JFun f) = False"
| "store_accepted v = falsy v"

definition code_invalid :: "'r raw_options \<Rightarrow> bool" where
  "code_invalid options =
     (\<not> positive_number (with_default (JNum 60000) (raw_windowMs options))
      \<or> \<not> (positive_number (with_default (JNum 100) (raw_max options))
            \<or> callable (with_default (JNum 100) (raw_max options)))
      \<or> \<not> algorithm_name (with_default (JStr ''sliding-window'') (raw_algorithm options))
      \<or> \<not> store_accepted (with_default (JStr ''memory'') (raw_store options)))"

fun raises :: "'e + 'a \<Rightarrow> bool" where
  "raises (Inl e) = True"
| "raises (Inr a) = False"

text \<open>Neither \<open>windowMs\<close> nor \<open>max\<close> of the (defaulted) options is \<open>NaN\<close>.\<close>

fun is_nan :: "'r jsval \<Rightarrow> bool" where
  "is_nan JNaN = True"
| "is_nan v = False"

definition nan_free :: "'r raw_options \<Rightarrow> bool" where
  "nan_free options =
     (\<not> is_nan (with_default (JNum 60000) (raw_windowMs options))
      \<and> \<not> is_nan (with_default (JNum 100) (raw_max options)))"

section \<open>Sliding-window records in the MemoryStore\<close>

text \<open>The timestamp list of what \<open>get\<close> returned; empty when the key or the list is absent.\<close>

definition listed :: "entry option \<Rightarrow> rat list" where
  "listed data =
     (case data of None \<Rightarrow> [] | Some d \<Rightarrow> (case requests d of None \<Rightarrow> [] | Some rs \<Rightarrow> rs))"

text \<open>The timestamp list kept under a key of the in-memory store.\<close>

definition stored_requests :: "memory_store \<Rightarrow> string \<Rightarrow> rat list" where
  "stored_requests s key = listed (store s key)"

text \<open>
  The timestamps of a list that are newer than \<open>now - w\<close>, and the reset time the claim
  words: the oldest retained timestamp plus \<open>w\<close>, or \<open>now + w\<close> when none is retained.
\<close>

definition retained :: "rat \<Rightarrow> rat \<Rightarrow> rat list \<Rightarrow> rat list" where
  "retained now w rs = filter (\<lambda>t. now - w < t) rs"

definition oldest_plus_window :: "rat \<Rightarrow> rat \<Rightarrow> rat list \<Rightarrow> rat" where
  "oldest_plus_window now w kept = (if kept = [] then now else Min (set kept)) + w"






section \<open>Token-bucket records\<close>

text \<open>What \<open>get\<close> returned is nothing, or has the two fields the token bucket reads.\<close>

definition bucket_data :: "entry option \<Rightarrow> bool" where
  "bucket_data data =
     (case data of None \<Rightarrow> True | Some d \<Rightarrow> tokens d \<noteq> None \<and> lastRefill d \<noteq> None)"

text \<open>
  The tokens after the refill of a call at \<open>now\<close>, from what \<open>get\<close> returned: the full
  capacity for an absent key.
\<close>

definition refill_of :: "algo_options \<Rightarrow> rat \<Rightarrow> entry option \<Rightarrow> rat" where
  "refill_of options now data =
     (let capacity = default_to 10 (opt_capacity options);
          refillRate = default_to 1 (opt_refillRate options)
      in case data of
           None \<Rightarrow> capacity
         | Some d \<Rightarrow> min capacity (the (tokens d)
                       + (now - the (lastRefill d)) / opt_windowMs options * refillRate))"

text \<open>The same for a key of the in-memory store.\<close>

definition bucket_record :: "memory_store \<Rightarrow> string \<Rightarrow> bool" where
  "bucket_record s key = bucket_data (store s key)"

definition refilled :: "memory_store \<Rightarrow> string \<Rightarrow> algo_options \<Rightarrow> rat \<Rightarrow> rat" where
  "refilled s key options now = refill_of options now (store s key)"

section \<open>Calls against one key of a limiter on the MemoryStore\<close>

text \<open>
  The calls a collaborator makes for one key: \<open>check\<close>, \<open>reset\<close>, and \<open>decrement\<close> of
  the store.
\<close>

datatype 'r call = CheckCall "'r ctx" rat rat | ResetCall | DecrementCall

fun run_call :: "'r limiter_options \<Rightarrow> string \<Rightarrow> 'r call \<Rightarrow> memory_store \<Rightarrow> memory_store" where
  "run_call cfg key (CheckCall c now tnow) s = snd (check memory_ops cfg key c now tnow s)"
| "run_call cfg key ResetCall s = snd (reset memory_ops key s)"
| "run_call cfg key DecrementCall s = snd (store_decrement memory_ops key s)"

definition run_calls :: "'r limiter_options \<Rightarrow> string \<Rightarrow> 'r call list \<Rightarrow> memory_store \<Rightarrow> memory_store" where
  "run_calls cfg key calls s = fold (run_call cfg key) calls s"

text \<open>The store keys under which an algorithm keeps the record of a limiter key.\<close>

definition record_keys :: "algorithm \<Rightarrow> string \<Rightarrow> string set" where
  "record_keys alg key = (if alg = FixedWindow then {fullKey key w | w. True} else {key})"

text \<open>The store key one check reads and writes.\<close>

definition touched_key :: "algorithm \<Rightarrow> string \<Rightarrow> algo_options \<Rightarrow> rat \<Rightarrow> string" where
  "touched_key alg key options now =
     (if alg = FixedWindow then fullKey key (windowKey now (opt_windowMs options)) else key)"

definition agree_on :: "string set \<Rightarrow> memory_store \<Rightarrow> memory_store \<Rightarrow> bool" where
  "agree_on K s t = (\<forall>k\<in>K. store s k = store t k \<and> timers s k = timers t k)"

text \<open>A computation whose outcome does not depend on the state it starts in.\<close>

definition state_free :: "(memory_store, 'a) io \<Rightarrow> bool" where
  "state_free m = (\<forall>s t. fst (m s) = fst (m t))"

section \<open>Example inputs\<close>

text \<open>A sliding-window limiter of one request per minute, and a store that has seen one request at time 1000.\<close>

definition one_per_minute :: "unit limiter_options" where
  "one_per_minute = \<lparr>cfg_windowMs = 60000, cfg_max = Static 1, cfg_algorithm = SlidingWindow\<rparr>"

definition seen_at_1000 :: memory_store where
  "seen_at_1000 =
     \<lparr>store = [''k'' \<mapsto> empty_entry\<lparr>requests := Some [1000]\<rparr>],
      timers = [''k'' \<mapsto> \<lparr>delay = 60000, cleared = False\<rparr>]\<rparr>"

text \<open>Constructor options: a store object with every method of the contract but \<open>resetAll\<close>, and a negative window.\<close>

definition store_without_resetAll :: "unit raw_options" where
  "store_without_resetAll = \<lparr>raw_windowMs = None, raw_max = None, raw_algorithm = None,
     raw_store = Some (JObj [''get'', ''set'', ''increment'', ''decrement'', ''reset''])\<rparr>"

definition negative_window_options :: "unit raw_options" where
  "negative_window_options = \<lparr>raw_windowMs = Some (JNum (- 1)), raw_max = None,
     raw_algorithm = None, raw_store = None\<rparr>"

text \<open>Options of an algorithm called with a window of one minute and nothing else.\<close>

definition minute_window :: algo_options where
  "minute_window = \<lparr>opt_windowMs = 60000, opt_capacity = None, opt_refillRate = None,
     opt_leakRate = None\<rparr>"

text \<open>A bucket holding half a token since time 1000; capacity 10, one token per second.\<close>

definition half_token :: memory_store where
  "half_token =
     \<lparr>store = [''k'' \<mapsto> empty_entry\<lparr>tokens := Some (1 / 2), lastRefill := Some 1000\<rparr>],
      timers = Map.empty\<rparr>"

definition bucket_options :: algo_options where
  "bucket_options = \<lparr>opt_windowMs = 1000, opt_capacity = Some 10, opt_refillRate = Some 1,
     opt_leakRate = None\<rparr>"

text \<open>
  A store whose \<open>get\<close> and \<open>set\<close> always raise while \<open>increment\<close> counts, a store
  whose every operation raises, and a fixed-window limiter of one request per second.
\<close>

definition counter_only_store :: "nat store_ops" where
  "counter_only_store =
     \<lparr>store_get = (\<lambda>key s. (Inl (Error ''get failed''), s)),
      store_set = (\<lambda>key v ttl s. (Inl (Error ''set failed''), s)),
      store_increment = (\<lambda>key w ts s. (Inr (of_nat (Suc s)), Suc s)),
      store_decrement = (\<lambda>key s. (Inr (), s - 1)),
      store_reset = (\<lambda>key s. (Inr (), 0))\<rparr>"

definition failing_store :: "unit store_ops" where
  "failing_store =
     \<lparr>store_get = (\<lambda>key s. (Inl (Error ''connection refused''), s)),
      store_set = (\<lambda>key v ttl s. (Inl (Error ''connection refused''), s)),
      store_increment = (\<lambda>key w ts s. (Inl (Error ''connection refused''), s)),
      store_decrement = (\<lambda>key s. (Inl (Error ''connection refused''), s)),
      store_reset = (\<lambda>key s. (Inl (Error ''connection refused''), s))\<rparr>"

definition one_per_second_fixed :: "unit limiter_options" where
  "one_per_second_fixed = \<lparr>cfg_windowMs = 1000, cfg_max = Static 1, cfg_algorithm = FixedWindow\<rparr>"

text \<open>
  A fixed-window limiter of five requests per second; an empty Redis server, a
  \<open>RedisStore\<close> with the default prefix, and the server after two sliding-window
  increments of the key \<open>k\<close>.
\<close>

definition five_per_second_fixed :: "unit limiter_options" where
  "five_per_second_fixed = \<lparr>cfg_windowMs = 1000, cfg_max = Static 5, cfg_algorithm = FixedWindow\<rparr>"

definition empty_redis :: redis where
  "empty_redis = \<lparr>db = Map.empty, expiry = Map.empty\<rparr>"

definition rl_store :: redis_store_config where
  "rl_store = \<lparr>prefix = ''rl:'', defaultExpiry = 3600\<rparr>"

definition two_hits :: redis where
  "two_hits =
     snd (redis_increment rl_store 2000 ''2000-0.7'' ''k'' 60000 (Some 2000)
       (snd (redis_increment rl_store 1000 ''1000-0.1'' ''k'' 60000 (Some 1000) empty_redis)))"

text \<open>
  A limiter whose \<open>max\<close> function returns a promise rejected with no reason, and
  constructor options whose \<open>windowMs\<close> and \<open>max\<close> are \<open>NaN\<close>.
\<close>

definition rejecting_quota :: "unit limiter_options" where
  "rejecting_quota = \<lparr>cfg_windowMs = 60000, cfg_max = Dynamic (\<lambda>r. Inl ThrownNullish),
     cfg_algorithm = SlidingWindow\<rparr>"

definition nan_options :: "unit raw_options" where
  "nan_options = \<lparr>raw_windowMs = Some JNaN, raw_max = Some JNaN, raw_algorithm = None,
     raw_store = None\<rparr>"

text \<open>
  The Redis server after a sliding-window check of the key \<open>k\<close> at 1000, and an
  in-memory store whose list for \<open>k\<close> is that of a check at 3000 followed by a check
  at 2000, the clock having been set back.
\<close>

definition one_hit :: redis where
  "one_hit =
     snd (sliding_window_check (redis_ops rl_store 1000 ''1000-0.1'') ''k'' minute_window 1000
            empty_redis)"

definition clock_set_back :: memory_store where
  "clock_set_back =
     \<lparr>store = [''k'' \<mapsto> empty_entry\<lparr>requests := Some [3000, 2000]\<rparr>],
      timers = [''k'' \<mapsto> \<lparr>delay = 60000, cleared = False\<rparr>]\<rparr>"

section \<open>Evaluation rules\<close>

lemmas io_defs = bind_io_def return_io_def

lemmas memory_defs = memory_ops_def mem_get_def mem_set_def mem_increment_def mem_decrement_def
  mem_reset_def clear_timer_def new_memory_store_def empty_entry_def

lemmas algorithm_defs = sliding_window_check_def sliding_first_def fixed_window_check_def
  token_bucket_check_def leaky_bucket_check_def

lemmas limiter_defs = check_def decide_def fail_open_def catch_block_def algo_options_of_def
  no_overrides_def

section \<open>The decision of a successful check\<close>

text \<open>
  C1, as the claim states it, fails in its last part: \<open>retryAfter\<close> is not \<open>resetTime\<close>
  minus the time of the algorithm's result. The algorithm reads the clock at 2000 and
  returns count 2 and \<open>resetTime\<close> 61000; the limiter reads the clock again when it
  builds the decision, at 2003, and \<open>retryAfter\<close> is 58997, not 59000.
\<close>

theorem retryAfter_reads_clock_again:
  "fst (algorithm_check (cfg_algorithm one_per_minute) memory_ops ''k''
          (algo_options_of one_per_minute (no_overrides ())) 2000 seen_at_1000) =
     Inr \<lparr>res_count = 2, res_resetTime = Some 61000\<rparr>
   \<and> retryAfter (projr (fst (check memory_ops one_per_minute ''k'' (no_overrides ()) 2000 2003
                              seen_at_1000))) = Some 58997
   \<and> (61000 :: rat) - 2000 \<noteq> 58997"
  by (simp add: one_per_minute_def seen_at_1000_def io_defs memory_defs algorithm_defs limiter_defs)

text \<open>
  C1, amended. When the key is a non-empty string, the quota resolves to \<open>mx\<close> and the
  algorithm, called at the clock value \<open>now\<close>, returns \<open>{count, resetTime}\<close>, the decision
  of \<open>check\<close> has \<open>allowed = (count \<le> mx)\<close>, \<open>limit = mx\<close>, \<open>current = count\<close>,
  \<open>remaining = max 0 (mx - count)\<close>, the \<open>resetTime\<close> of the algorithm, and
  \<open>retryAfter = resetTime - tnow\<close> when \<open>count > mx\<close> and \<open>0\<close> otherwise, where \<open>tnow\<close> is
  the clock value the limiter reads when it builds the decision, after the algorithm
  has returned.
\<close>

theorem check_decision:
  assumes "key \<noteq> []"
    and "resolve_max (cfg_max cfg) (req c) = Inr mx"
    and "algorithm_check (cfg_algorithm cfg) ops key (algo_options_of cfg c) now s = (Inr res, s')"
  shows "check ops cfg key c now tnow s =
           (Inr \<lparr>allowed = (res_count res \<le> mx),
                  limit = Static mx,
                  current = res_count res,
                  remaining = Static (max 0 (mx - res_count res)),
                  resetTime = res_resetTime res,
                  retryAfter = (if res_count res > mx
                                then map_option (\<lambda>rt. rt - tnow) (res_resetTime res)
                                else Some 0),
                  error = None\<rparr>, s')"
  using assms by (simp add: check_def decide_def)

theorem check_decision_witness:
  "''k'' \<noteq> [] \<and>
   resolve_max (cfg_max one_per_minute) (req (no_overrides ())) = Inr 1 \<and>
   fst (check memory_ops one_per_minute ''k'' (no_overrides ()) 2000 2003 seen_at_1000) =
     Inr \<lparr>allowed = False, limit = Static 1, current = 2, remaining = Static 0,
           resetTime = Some 61000, retryAfter = Some 58997, error = None\<rparr>"
proof -
  let ?r = "algorithm_check (cfg_algorithm one_per_minute) memory_ops ''k''
              (algo_options_of one_per_minute (no_overrides ())) 2000 seen_at_1000"
  have h: "?r = (Inr \<lparr>res_count = 2, res_resetTime = Some 61000\<rparr>, snd ?r)"
    by (simp add: one_per_minute_def seen_at_1000_def io_defs memory_defs algorithm_defs limiter_defs)
  have k: "''k'' \<noteq> []" by simp
  have q: "resolve_max (cfg_max one_per_minute) (req (no_overrides ())) = Inr 1"
    by (simp add: one_per_minute_def)
  show ?thesis using check_decision [OF k q h, of 2003] q by simp
qed

section \<open>Construction-time validation\<close>

lemma number_not_callable: "is_number v \<Longrightarrow> \<not> callable v"
  by (cases v) simp_all

lemma positive_accepted: "positive_number v \<Longrightarrow> is_number v \<and> \<not> le_zero v"
  by (cases v) simp_all

lemma accepted_positive: "\<not> is_nan v \<Longrightarrow> is_number v \<Longrightarrow> \<not> le_zero v \<Longrightarrow> positive_number v"
  by (cases v) simp_all

lemma validate_raises:
  "raises (validateOptions options) \<longleftrightarrow>
     (\<not> (is_number (with_default (JNum 60000) (raw_windowMs options))
          \<and> \<not> le_zero (with_default (JNum 60000) (raw_windowMs options)))
      \<or> \<not> ((is_number (with_default (JNum 100) (raw_max options))
              \<and> \<not> le_zero (with_default (JNum 100) (raw_max options)))
            \<or> callable (with_default (JNum 100) (raw_max options)))
      \<or> \<not> algorithm_name (with_default (JStr ''sliding-window'') (raw_algorithm options)))"
  using number_not_callable[of "with_default (JNum 100) (raw_max options)"]
  by (auto simp: validateOptions_def Let_def split: jsval.splits option.splits if_splits)

lemma first_missing_None: "set rq \<subseteq> set ms \<longleftrightarrow> first_missing rq ms = None"
  by (induction rq) auto

lemma store_raises: "raises (initializeStore st) \<longleftrightarrow> \<not> store_accepted st"
  by (cases st) (auto simp: initializeStore_def first_missing_None startsWith_def split: option.splits)

lemma construct_failure_kind: "construct options = Inl e \<Longrightarrow> \<exists>f. e = ConfigurationError f"
  by (auto simp: construct_def validateOptions_def initializeStore_def Let_def
      split: sum.splits jsval.splits option.splits if_splits)

lemma message_failure: "message e \<noteq> Inl (ConfigurationError f)"
  by (cases e) simp_all

lemma check_failure_kind: "fst (check ops cfg key c now tnow s) \<noteq> Inl (ConfigurationError f)"
  using message_failure
  by (auto simp: check_def catch_block_def split: sum.splits prod.splits)

text \<open>
  C7, as the claim states it, fails: a store object that has \<open>get\<close>, \<open>set\<close>,
  \<open>increment\<close>, \<open>decrement\<close> and \<open>reset\<close> but no \<open>resetAll\<close> does not implement the
  full Store contract, and the constructor accepts it (\<open>RateLimiter.resetAll\<close> tests
  for the method before it calls it).
\<close>

theorem construct_accepts_store_without_resetAll:
  "\<not> (raises (construct store_without_resetAll) \<longleftrightarrow> spec_invalid store_without_resetAll)"
  by (simp add: construct_def validateOptions_def initializeStore_def store_without_resetAll_def
      spec_invalid_def requiredMethods_def fullContract_def)

text \<open>
  C7, amended. For options whose \<open>windowMs\<close> and \<open>max\<close> are not \<open>NaN\<close>, the constructor
  raises exactly when \<open>windowMs\<close> is not a positive number, or \<open>max\<close> is neither a
  positive number nor a callable, or \<open>algorithm\<close> is not one of the four names, or
  \<open>store\<close> is not accepted: an accepted store is a falsy value, the string \<open>memory\<close>, a
  string starting with \<open>redis://\<close>, or an object with the methods \<open>increment\<close>, \<open>get\<close>
  and \<open>reset\<close>. Whenever it raises, one of these holds and what it raises is a
  configuration error; \<open>check\<close> never raises one.
\<close>

theorem construct_raises_iff:
  "(nan_free options \<longrightarrow> (raises (construct options) \<longleftrightarrow> code_invalid options))
   \<and> (raises (construct options) \<longrightarrow> code_invalid options)
   \<and> (\<forall>e. construct options = Inl e \<longrightarrow> (\<exists>f. e = ConfigurationError f))
   \<and> fst (check ops cfg key c now tnow s) \<noteq> Inl (ConfigurationError f)"
proof -
  let ?W = "with_default (JNum 60000) (raw_windowMs options)"
  let ?M = "with_default (JNum 100) (raw_max options)"
  have r: "raises (construct options) \<longleftrightarrow>
        raises (validateOptions options)
        \<or> raises (initializeStore (with_default (JStr ''memory'') (raw_store options)))"
    by (simp add: construct_def split: sum.splits)
  have a: "raises (construct options) \<longrightarrow> code_invalid options"
    using positive_accepted[of ?W] positive_accepted[of ?M]
    unfolding r validate_raises store_raises code_invalid_def by blast
  have b: "nan_free options \<longrightarrow> code_invalid options \<longrightarrow> raises (construct options)"
    using accepted_positive[of ?W] accepted_positive[of ?M]
    unfolding r validate_raises store_raises code_invalid_def nan_free_def by blast
  have c: "\<forall>e. construct options = Inl e \<longrightarrow> (\<exists>f. e = ConfigurationError f)"
    using construct_failure_kind by blast
  have d: "fst (check ops cfg key c now tnow s) \<noteq> Inl (ConfigurationError f)"
    by (rule check_failure_kind)
  from a b c d show ?thesis by blast
qed

theorem construct_raises_iff_witness:
  "nan_free store_without_resetAll
   \<and> \<not> code_invalid store_without_resetAll
   \<and> \<not> raises (construct store_without_resetAll)
   \<and> code_invalid negative_window_options
   \<and> construct negative_window_options = Inl (ConfigurationError BadWindowMs)"
proof -
  have n: "nan_free store_without_resetAll"
    by (simp add: nan_free_def store_without_resetAll_def)
  have a: "code_invalid negative_window_options"
    by (simp add: code_invalid_def negative_window_options_def)
  have b: "\<not> code_invalid store_without_resetAll"
    by (simp add: code_invalid_def store_without_resetAll_def requiredMethods_def)
  have c: "construct negative_window_options = Inl (ConfigurationError BadWindowMs)"
    by (simp add: construct_def validateOptions_def negative_window_options_def)
  show ?thesis
    using n a b c construct_raises_iff [where options = store_without_resetAll, THEN conjunct1]
    by simp
qed

text \<open>
  \<open>NaN\<close> is a number that is not positive, and no comparison with it is true: the
  constructor accepts it as \<open>windowMs\<close> and as \<open>max\<close>.
\<close>

lemma construct_accepts_nan:
  "construct nan_options =
     Inr (\<lparr>conf_windowMs = JNaN, conf_max = JNaN, conf_algorithm = SlidingWindow\<rparr>, UseMemoryStore)
   \<and> code_invalid nan_options"
  by (simp add: construct_def validateOptions_def initializeStore_def nan_options_def
      code_invalid_def)

section \<open>The sliding-window algorithm on the MemoryStore\<close>

lemma store_mem_set: "store (mem_set key v ttl s) = (store s)(key \<mapsto> v)"
  by (simp add: mem_set_def Let_def)

lemma timers_mem_set_same:
  "timers (mem_set key v ttl s) key =
     (if truthy ttl then Some \<lparr>delay = the ttl, cleared = False\<rparr>
      else map_option (\<lambda>t. t\<lparr>cleared := True\<rparr>) (timers s key))"
  by (simp add: mem_set_def Let_def clear_timer_def split: option.splits)

lemma timers_mem_set_other: "k \<noteq> key \<Longrightarrow> timers (mem_set key v ttl s) k = timers s k"
  by (simp add: mem_set_def Let_def clear_timer_def split: option.splits)

lemma sw_mem_absent:
  assumes "store s key = None" "now \<noteq> 0"
  shows "sliding_window_check memory_ops key options now s =
     (Inr \<lparr>res_count = 1, res_resetTime = Some (now + opt_windowMs options)\<rparr>,
      mem_set key (empty_entry\<lparr>requests := Some [now]\<rparr>) (Some (opt_windowMs options)) s)"
  using assms
  by (simp add: sliding_window_check_def sliding_first_def io_defs memory_ops_def mem_get_def
      mem_increment_def Let_def)

lemma sw_mem_nolist:
  assumes "store s key = Some d" "requests d = None" "now \<noteq> 0"
  shows "sliding_window_check memory_ops key options now s =
     (Inr \<lparr>res_count = 1, res_resetTime = Some (now + opt_windowMs options)\<rparr>,
      mem_set key (d\<lparr>requests := Some [now]\<rparr>) (Some (opt_windowMs options)) s)"
  using assms
  by (simp add: sliding_window_check_def sliding_first_def io_defs memory_ops_def mem_get_def
      mem_increment_def Let_def)

lemma sw_mem_list:
  assumes "store s key = Some d" "requests d = Some rs"
  shows "sliding_window_check memory_ops key options now s =
     (Inr \<lparr>res_count = of_nat (length (filter (\<lambda>t. now - opt_windowMs options < t) rs)) + 1,
            res_resetTime = Some (oldestRequest (filter (\<lambda>t. now - opt_windowMs options < t) rs @ [now]) now
                                  + opt_windowMs options)\<rparr>,
      mem_set key (empty_entry\<lparr>requests := Some (filter (\<lambda>t. now - opt_windowMs options < t) rs @ [now])\<rparr>)
        (Some (opt_windowMs options)) s)"
  using assms
  by (simp add: sliding_window_check_def io_defs memory_ops_def mem_get_def Let_def)

lemma oldest_sorted:
  assumes "sorted rs" "0 \<notin> set rs" "rs \<noteq> []"
  shows "oldestRequest (rs @ [now]) now = Min (set rs)"
proof (cases rs)
  case Nil
  with assms show ?thesis by simp
next
  case (Cons x xs)
  with assms have "x \<noteq> 0" by auto
  moreover from Cons assms have "Min (set rs) = x"
    by (auto intro!: Min_eqI)
  ultimately show ?thesis using Cons by simp
qed






lemma sliding_window_memory:
  assumes now: "now \<noteq> 0" and w: "0 < opt_windowMs options"
    and wf: "sorted (stored_requests s key)" "0 \<notin> set (stored_requests s key)"
  defines "kept \<equiv> retained now (opt_windowMs options) (stored_requests s key)"
  shows "\<exists>s'. sliding_window_check memory_ops key options now s =
           (Inr \<lparr>res_count = of_nat (length kept) + 1,
                  res_resetTime = Some (oldest_plus_window now (opt_windowMs options) kept)\<rparr>, s')
         \<and> stored_requests s' key = kept @ [now]
         \<and> timers s' key = Some \<lparr>delay = opt_windowMs options, cleared = False\<rparr>
         \<and> (\<forall>t\<in>set (stored_requests s key).
               t \<le> now - opt_windowMs options \<longrightarrow> t \<notin> set (stored_requests s' key))"
proof (cases "store s key")
  case None
  show ?thesis unfolding sw_mem_absent[OF None now]
    using None now w
    by (simp add: kept_def retained_def oldest_plus_window_def stored_requests_def listed_def
        store_mem_set timers_mem_set_same)
next
  case (Some d)
  show ?thesis
  proof (cases "requests d")
    case None
    show ?thesis unfolding sw_mem_nolist[OF Some None now]
      using Some None now w
      by (simp add: kept_def retained_def oldest_plus_window_def stored_requests_def listed_def
          store_mem_set timers_mem_set_same)
  next
    case (Some rs)
    have rs: "stored_requests s key = rs" using Some \<open>store s key = Some d\<close>
      by (simp add: stored_requests_def listed_def)
    have srt: "sorted kept" and pos: "0 \<notin> set kept"
      using wf by (auto simp: kept_def retained_def sorted_wrt_filter)
    have old: "oldestRequest (kept @ [now]) now + opt_windowMs options
                 = oldest_plus_window now (opt_windowMs options) kept"
      using oldest_sorted[OF srt pos] by (cases "kept = []") (auto simp: oldest_plus_window_def)
    have ret: "filter (\<lambda>t. now - opt_windowMs options < t) rs = kept"
      by (simp add: kept_def retained_def rs)
    have nw: "\<not> now \<le> now - opt_windowMs options" using w by simp
    have drop: "\<forall>t\<in>set rs. t \<le> now - opt_windowMs options \<longrightarrow> t \<notin> set (kept @ [now])"
      using nw by (auto simp: ret[symmetric])
    show ?thesis unfolding sw_mem_list[OF \<open>store s key = Some d\<close> Some] ret old
      using w drop
      by (simp add: stored_requests_def listed_def store_mem_set timers_mem_set_same
          empty_entry_def \<open>store s key = Some d\<close> Some)
  qed
qed

lemma sliding_result_any_store:
  assumes g: "store_get ops key u = (Inr data, u1)"
    and wf: "sorted (listed data)" "0 \<notin> set (listed data)"
    and r: "sliding_window_check ops key options now u = (Inr res, u')"
  defines "kept \<equiv> retained now (opt_windowMs options) (listed data)"
  shows "res = \<lparr>res_count = of_nat (length kept) + 1,
                res_resetTime = Some (oldest_plus_window now (opt_windowMs options) kept)\<rparr>"
proof -
  have srt: "sorted kept" and nz: "0 \<notin> set kept"
    using wf by (auto simp: kept_def retained_def sorted_wrt_filter)
  have old: "oldestRequest (kept @ [now]) now + opt_windowMs options
               = oldest_plus_window now (opt_windowMs options) kept"
    using oldest_sorted[OF srt nz] by (cases "kept = []") (auto simp: oldest_plus_window_def)
  show ?thesis
  proof (cases "\<exists>d rs. data = Some d \<and> requests d = Some rs")
    case True
    then obtain d rs where d: "data = Some d" "requests d = Some rs" by blast
    then have l: "filter (\<lambda>t. now - opt_windowMs options < t) rs = kept"
      by (simp add: listed_def kept_def retained_def)
    have "res = \<lparr>res_count = of_nat (length (filter (\<lambda>t. now - opt_windowMs options < t) rs)) + 1,
                 res_resetTime = Some (oldestRequest (filter (\<lambda>t. now - opt_windowMs options < t) rs @ [now]) now
                                       + opt_windowMs options)\<rparr>"
      using r g d
      by (auto simp: sliding_window_check_def io_defs Let_def split: prod.splits sum.splits)
    then show ?thesis unfolding l old .
  next
    case False
    then have l: "kept = []"
      by (auto simp: listed_def kept_def retained_def split: option.splits)
    show ?thesis using r g False
      by (auto simp: sliding_window_check_def sliding_first_def io_defs Let_def l
          oldest_plus_window_def split: prod.splits sum.splits option.splits)
  qed
qed

text \<open>
  A sliding-window check at \<open>now\<close> with a positive window, where the list of the key
  holds the clock values of earlier checks in their order (0 is not a clock value).
  Against any store: when the check returns, its count is the number of timestamps of
  the list \<open>get\<close> returned that are newer than \<open>now - windowMs\<close>, plus one, and its
  \<open>resetTime\<close> is the oldest of them plus \<open>windowMs\<close>, or \<open>now + windowMs\<close> when none is
  retained (also when the key was absent). Against the in-memory store the check
  returns, the timestamps not newer than \<open>now - windowMs\<close> are gone from the persisted
  list, the persisted list is the retained one with \<open>now\<close> appended, and its timer runs
  for \<open>windowMs\<close>.
\<close>

lemma sliding_window_on_memory:
  fixes ops :: "'s store_ops"
  assumes now: "now \<noteq> 0" and w: "0 < opt_windowMs options"
  shows "(store_get ops key u = (Inr data, u1) \<and> sorted (listed data) \<and> 0 \<notin> set (listed data)
          \<and> sliding_window_check ops key options now u = (Inr res, u')
          \<longrightarrow> res = \<lparr>res_count = of_nat (length (retained now (opt_windowMs options) (listed data))) + 1,
                       res_resetTime = Some (oldest_plus_window now (opt_windowMs options)
                                               (retained now (opt_windowMs options) (listed data)))\<rparr>)
       \<and> (sorted (stored_requests s key) \<and> 0 \<notin> set (stored_requests s key)
          \<longrightarrow> (\<exists>s'. sliding_window_check memory_ops key options now s =
                  (Inr \<lparr>res_count = of_nat (length (retained now (opt_windowMs options)
                                                      (stored_requests s key))) + 1,
                         res_resetTime = Some (oldest_plus_window now (opt_windowMs options)
                                                 (retained now (opt_windowMs options)
                                                    (stored_requests s key)))\<rparr>, s')
                \<and> stored_requests s' key
                    = retained now (opt_windowMs options) (stored_requests s key) @ [now]
                \<and> timers s' key = Some \<lparr>delay = opt_windowMs options, cleared = False\<rparr>
                \<and> (\<forall>t\<in>set (stored_requests s key).
                      t \<le> now - opt_windowMs options \<longrightarrow> t \<notin> set (stored_requests s' key))))"
  using sliding_result_any_store [of ops key u data u1 options now res u']
    sliding_window_memory [OF now w, of s key]
  by blast

lemma sliding_window_on_memory_example:
  "fst (sliding_window_check memory_ops ''k'' minute_window 70000 seen_at_1000) =
     Inr \<lparr>res_count = 1, res_resetTime = Some 130000\<rparr>
   \<and> fst (sliding_window_check memory_ops ''k'' minute_window 2000 seen_at_1000) =
     Inr \<lparr>res_count = 2, res_resetTime = Some 61000\<rparr>
   \<and> stored_requests (snd (sliding_window_check memory_ops ''k'' minute_window 2000 seen_at_1000)) ''k''
       = [1000, 2000]"
proof -
  have sr: "stored_requests seen_at_1000 ''k'' = [1000]"
    by (simp add: stored_requests_def listed_def seen_at_1000_def empty_entry_def)
  have w: "0 < opt_windowMs minute_window" by (simp add: minute_window_def)
  have a: "sorted (stored_requests seen_at_1000 ''k'') \<and> 0 \<notin> set (stored_requests seen_at_1000 ''k'')"
    by (simp add: sr)
  have p1: "(70000::rat) \<noteq> 0" and p2: "(2000::rat) \<noteq> 0" by simp_all
  have k1: "retained 70000 (opt_windowMs minute_window) [1000] = []"
    and k2: "retained 2000 (opt_windowMs minute_window) [1000] = [1000]"
    by (simp_all add: retained_def minute_window_def)
  note t1 = sliding_window_on_memory [OF p1 w, THEN conjunct2, rule_format, OF a, unfolded sr k1]
  note t2 = sliding_window_on_memory [OF p2 w, THEN conjunct2, rule_format, OF a, unfolded sr k2]
  show ?thesis
    using t1 t2 by (auto simp: oldest_plus_window_def minute_window_def)
qed



section \<open>The token-bucket algorithm on the MemoryStore\<close>

lemma tb_consume:
  "bind_io (store_get memory_ops key) f s = f (store s key) s"
  by (simp add: io_defs memory_ops_def mem_get_def)

lemma tb_set:
  "bind_io (store_set memory_ops key v ttl) f s = f () (mem_set key v ttl s)"
  by (simp add: io_defs memory_ops_def)

lemma tb_mem_none:
  assumes "store s key = None"
  shows "token_bucket_check memory_ops key options now s =
    (let C = default_to 10 (opt_capacity options);
         r = default_to 1 (opt_refillRate options);
         W = opt_windowMs options
     in if 1 \<le> C
        then (Inr \<lparr>res_count = C - (C - 1), res_resetTime = Some (now + (1 / r) * W)\<rparr>,
              mem_set key (empty_entry\<lparr>tokens := Some (C - 1), lastRefill := Some now\<rparr>) (Some (W * C)) s)
        else (Inr \<lparr>res_count = C + 1, res_resetTime = Some (now + ((1 - C) / r) * W)\<rparr>, s))"
  unfolding token_bucket_check_def Let_def tb_consume assms option.case
  by (simp only: tb_set return_io_def if_distrib[of "\<lambda>m. m s"] cong: if_cong)

lemma tb_mem_some:
  assumes "store s key = Some d" "tokens d = Some t" "lastRefill d = Some l"
  shows "token_bucket_check memory_ops key options now s =
    (let C = default_to 10 (opt_capacity options);
         r = default_to 1 (opt_refillRate options);
         W = opt_windowMs options;
         tk = min C (t + (now - l) / W * r)
     in if 1 \<le> tk
        then (Inr \<lparr>res_count = C - (tk - 1), res_resetTime = Some (now + (1 / r) * W)\<rparr>,
              mem_set key (empty_entry\<lparr>tokens := Some (tk - 1), lastRefill := Some now\<rparr>) (Some (W * C)) s)
        else (Inr \<lparr>res_count = C + 1, res_resetTime = Some (now + ((1 - tk) / r) * W)\<rparr>, s))"
  unfolding token_bucket_check_def Let_def tb_consume assms option.case prod.case
  by (simp only: tb_set return_io_def if_distrib[of "\<lambda>m. m s"] cong: if_cong)

lemma token_bucket_memory:
  fixes now :: rat and options :: algo_options
  assumes "bucket_record s key"
  defines "C \<equiv> default_to 10 (opt_capacity options)"
    and "r \<equiv> default_to 1 (opt_refillRate options)"
    and "W \<equiv> opt_windowMs options"
    and "tk \<equiv> refilled s key options now"
  shows "(1 \<le> tk \<longrightarrow>
            token_bucket_check memory_ops key options now s =
              (Inr \<lparr>res_count = C - (tk - 1), res_resetTime = Some (now + (1 / r) * W)\<rparr>,
               mem_set key (empty_entry\<lparr>tokens := Some (tk - 1), lastRefill := Some now\<rparr>)
                 (Some (W * C)) s)
            \<and> store (snd (token_bucket_check memory_ops key options now s)) key
                = Some (empty_entry\<lparr>tokens := Some (tk - 1), lastRefill := Some now\<rparr>)
            \<and> tk - 1 \<le> C)
       \<and> (tk < 1 \<longrightarrow>
            token_bucket_check memory_ops key options now s =
              (Inr \<lparr>res_count = C + 1, res_resetTime = Some (now + ((1 - tk) / r) * W)\<rparr>, s))
       \<and> tk \<le> C"
proof (cases "store s key")
  case None
  have tk: "tk = C" using None by (simp add: tk_def refilled_def refill_of_def C_def)
  show ?thesis unfolding tb_mem_none[OF None] Let_def tk
    by (simp add: C_def r_def W_def store_mem_set)
next
  case (Some d)
  then obtain t l where tl: "tokens d = Some t" "lastRefill d = Some l"
    using assms(1) by (auto simp: bucket_record_def bucket_data_def)
  define x where "x = min C (t + (now - l) / W * r)"
  have tk: "tk = x"
    using Some tl by (simp add: tk_def refilled_def refill_of_def C_def x_def W_def r_def)
  have le: "x \<le> C" by (simp add: x_def)
  show ?thesis unfolding tb_mem_some[OF Some tl] Let_def tk
    unfolding C_def[symmetric] r_def[symmetric] W_def[symmetric] x_def[symmetric]
    using le by (simp add: store_mem_set)
qed

lemma token_result_any_store:
  fixes now :: rat
  assumes g: "store_get ops key u = (Inr data, u1)" and b: "bucket_data data"
    and r: "token_bucket_check ops key options now u = (Inr res, u')"
  defines "C \<equiv> default_to 10 (opt_capacity options)"
    and "rr \<equiv> default_to 1 (opt_refillRate options)"
    and "W \<equiv> opt_windowMs options"
    and "tk \<equiv> refill_of options now data"
  shows "res = (if 1 \<le> tk
                then \<lparr>res_count = C - (tk - 1), res_resetTime = Some (now + (1 / rr) * W)\<rparr>
                else \<lparr>res_count = C + 1, res_resetTime = Some (now + ((1 - tk) / rr) * W)\<rparr>)"
proof (cases data)
  case None
  have tk: "tk = C" using None by (simp add: tk_def refill_of_def C_def)
  have "token_bucket_check ops key options now u =
     (if 1 \<le> C
      then bind_io (store_set ops key (empty_entry\<lparr>tokens := Some (C - 1), lastRefill := Some now\<rparr>)
                      (Some (W * C)))
             (\<lambda>_. return_io \<lparr>res_count = C - (C - 1), res_resetTime = Some (now + (1 / rr) * W)\<rparr>) u1
      else return_io \<lparr>res_count = C + 1, res_resetTime = Some (now + ((1 - C) / rr) * W)\<rparr> u1)"
    unfolding token_bucket_check_def Let_def C_def rr_def W_def
    by (simp only: bind_io_def g None prod.case sum.case option.case if_distrib[of "\<lambda>m. m u1"]
        cong: if_cong)
  then show ?thesis using r unfolding tk
    by (auto simp only: io_defs split: if_splits prod.splits sum.splits)
next
  case (Some d)
  then obtain t l where tl: "tokens d = Some t" "lastRefill d = Some l"
    using b by (auto simp: bucket_data_def)
  define x where "x = min C (t + (now - l) / W * rr)"
  have tk: "tk = x" using Some tl by (simp add: tk_def refill_of_def C_def x_def W_def rr_def)
  have "token_bucket_check ops key options now u =
     (if 1 \<le> x
      then bind_io (store_set ops key (empty_entry\<lparr>tokens := Some (x - 1), lastRefill := Some now\<rparr>)
                      (Some (W * C)))
             (\<lambda>_. return_io \<lparr>res_count = C - (x - 1), res_resetTime = Some (now + (1 / rr) * W)\<rparr>) u1
      else return_io \<lparr>res_count = C + 1, res_resetTime = Some (now + ((1 - x) / rr) * W)\<rparr> u1)"
    unfolding token_bucket_check_def Let_def C_def rr_def W_def x_def
    by (simp only: bind_io_def g Some tl prod.case sum.case option.case if_distrib[of "\<lambda>m. m u1"]
        cong: if_cong)
  then show ?thesis using r unfolding tk
    by (auto simp only: io_defs split: if_splits prod.splits sum.splits)
qed


text \<open>
  C4. A token-bucket check at \<open>now\<close> with capacity \<open>C\<close>, refill rate \<open>r\<close> and window \<open>W\<close>
  (both not zero, so that the quotients are those of the source), on a key that is
  absent or holds a bucket record: the stored tokens are refilled by
  \<open>(now - lastRefill) / W * r\<close> and capped at \<open>C\<close> (an absent key starts full). Against
  any store, a check that returns has \<open>count = C - (tokens - 1)\<close> and
  \<open>resetTime = now + (1 / r) * W\<close> when the refilled tokens are at least 1, and
  \<open>count = C + 1\<close> and \<open>resetTime = now + ((1 - tokens) / r) * W\<close> otherwise. Against the
  in-memory store it returns, with at least one token it persists \<open>{tokens - 1, now}\<close>,
  otherwise it writes nothing, and the refilled and the persisted tokens never exceed
  \<open>C\<close>, whatever \<open>now\<close> is.
\<close>

theorem token_bucket_spec:
  fixes now :: rat and ops :: "'s store_ops"
  assumes "opt_windowMs options \<noteq> 0" and "default_to 1 (opt_refillRate options) \<noteq> 0"
  defines "C \<equiv> default_to 10 (opt_capacity options)"
    and "r \<equiv> default_to 1 (opt_refillRate options)"
    and "W \<equiv> opt_windowMs options"
  shows "(store_get ops key u = (Inr data, u1) \<and> bucket_data data
          \<and> token_bucket_check ops key options now u = (Inr res, u')
          \<longrightarrow> res = (if 1 \<le> refill_of options now data
                      then \<lparr>res_count = C - (refill_of options now data - 1),
                            res_resetTime = Some (now + (1 / r) * W)\<rparr>
                      else \<lparr>res_count = C + 1,
                            res_resetTime = Some (now + ((1 - refill_of options now data) / r) * W)\<rparr>))
       \<and> (bucket_record s key \<longrightarrow>
            (1 \<le> refilled s key options now \<longrightarrow>
               token_bucket_check memory_ops key options now s =
                 (Inr \<lparr>res_count = C - (refilled s key options now - 1),
                        res_resetTime = Some (now + (1 / r) * W)\<rparr>,
                  mem_set key (empty_entry\<lparr>tokens := Some (refilled s key options now - 1),
                                           lastRefill := Some now\<rparr>)
                    (Some (W * C)) s)
               \<and> store (snd (token_bucket_check memory_ops key options now s)) key
                   = Some (empty_entry\<lparr>tokens := Some (refilled s key options now - 1),
                                         lastRefill := Some now\<rparr>)
               \<and> refilled s key options now - 1 \<le> C)
            \<and> (refilled s key options now < 1 \<longrightarrow>
               token_bucket_check memory_ops key options now s =
                 (Inr \<lparr>res_count = C + 1,
                        res_resetTime = Some (now + ((1 - refilled s key options now) / r) * W)\<rparr>, s))
            \<and> refilled s key options now \<le> C)"
  unfolding C_def r_def W_def
  using token_result_any_store [of ops key u data u1 options now res u']
    token_bucket_memory [of s key options now]
  by blast

theorem token_bucket_spec_witness:
  "fst (token_bucket_check memory_ops ''k'' bucket_options 1200 half_token) =
     Inr \<lparr>res_count = 11, res_resetTime = Some 1500\<rparr>
   \<and> fst (token_bucket_check memory_ops ''k'' bucket_options 4000 half_token) =
     Inr \<lparr>res_count = 15 / 2, res_resetTime = Some 5000\<rparr>
   \<and> tokens (the (store (snd (token_bucket_check memory_ops ''k'' bucket_options 4000 half_token)) ''k''))
       = Some (5 / 2)"
proof -
  have a: "opt_windowMs bucket_options \<noteq> 0" "default_to 1 (opt_refillRate bucket_options) \<noteq> 0"
    by (simp_all add: bucket_options_def)
  have b: "bucket_record half_token ''k''"
    by (simp add: bucket_record_def bucket_data_def half_token_def empty_entry_def)
  have r1: "refilled half_token ''k'' bucket_options 1200 = 7 / 10"
    by (simp add: refilled_def refill_of_def half_token_def bucket_options_def empty_entry_def)
  have r2: "refilled half_token ''k'' bucket_options 4000 = 7 / 2"
    by (simp add: refilled_def refill_of_def half_token_def bucket_options_def empty_entry_def)
  note t1 = token_bucket_spec [OF a, THEN conjunct2, rule_format, OF b, of 1200, unfolded r1]
  note t2 = token_bucket_spec [OF a, THEN conjunct2, rule_format, OF b, of 4000, unfolded r2]
  show ?thesis
    using t1 t2 by (simp add: bucket_options_def empty_entry_def store_mem_set)
qed

section \<open>Fail-open\<close>

text \<open>
  C2, as the claim states it, fails in its last part: the fixed-window algorithm calls
  only \<open>increment\<close>, so against a store whose \<open>get\<close> and \<open>set\<close> always raise while
  \<open>increment\<close> counts, the second check of a one-per-second limiter is an ordinary
  denial with no error field.
\<close>

theorem fixed_window_ignores_get_set:
  "fst (check counter_only_store one_per_second_fixed ''k'' (no_overrides ()) 5001 5001
          (snd (check counter_only_store one_per_second_fixed ''k'' (no_overrides ()) 5000 5000 0))) =
     Inr \<lparr>allowed = False, limit = Static 1, current = 2, remaining = Static 0,
           resetTime = Some 6000, retryAfter = Some 999, error = None\<rparr>"
proof -
  have w: "windowKey 5000 1000 = 5" "windowKey 5001 1000 = 5"
    unfolding windowKey_def by code_simp+
  show ?thesis
    by (simp add: counter_only_store_def one_per_second_fixed_def io_defs algorithm_defs
        limiter_defs w)
qed

lemma get_raises_algorithm:
  assumes "store_get ops key s = (Inl e, s')" and "alg \<noteq> FixedWindow"
  shows "algorithm_check alg ops key options now s = (Inl e, s')"
  using assms by (cases alg) (simp_all add: algorithm_defs io_defs Let_def)

lemma increment_raises_fixed_window:
  assumes "store_increment ops (fullKey key (windowKey now (opt_windowMs options)))
             (opt_windowMs options) None s = (Inl e, s')"
  shows "algorithm_check FixedWindow ops key options now s = (Inl e, s')"
  using assms by (simp add: algorithm_defs io_defs Let_def)

text \<open>
  C2, amended. For a non-empty key, when quota resolution or the algorithm (through any
  store access it makes) raises an \<open>Error\<close>, \<open>check\<close> raises nothing and returns the
  fail-open decision: \<open>allowed = true\<close>, \<open>remaining\<close> the configured \<open>max\<close>,
  \<open>retryAfter = 0\<close>, and \<open>error\<close> the message of the \<open>Error\<close>. In particular this is the
  decision against a store whose \<open>get\<close> raises an \<open>Error\<close> under the sliding-window,
  token-bucket and leaky-bucket algorithms, and against a store whose \<open>increment\<close>
  raises one under the fixed-window algorithm. When whatever is raised is an \<open>Error\<close>,
  \<open>check\<close> returns a decision.
\<close>

theorem check_fail_open:
  assumes "key \<noteq> []"
  shows "(resolve_max (cfg_max cfg) (req c) = Inl (Error m) \<longrightarrow>
            check ops cfg key c now tnow s = (Inr (fail_open cfg (Some m) tnow), s))
       \<and> (resolve_max (cfg_max cfg) (req c) = Inr mx
            \<and> algorithm_check (cfg_algorithm cfg) ops key (algo_options_of cfg c) now s
                = (Inl (Error m), s')
            \<longrightarrow> check ops cfg key c now tnow s = (Inr (fail_open cfg (Some m) tnow), s'))
       \<and> (resolve_max (cfg_max cfg) (req c) = Inr mx \<and> cfg_algorithm cfg \<noteq> FixedWindow
            \<and> store_get ops key s = (Inl (Error m), s')
            \<longrightarrow> check ops cfg key c now tnow s = (Inr (fail_open cfg (Some m) tnow), s'))
       \<and> (resolve_max (cfg_max cfg) (req c) = Inr mx \<and> cfg_algorithm cfg = FixedWindow
            \<and> store_increment ops
                 (fullKey key (windowKey now (opt_windowMs (algo_options_of cfg c))))
                 (opt_windowMs (algo_options_of cfg c)) None s = (Inl (Error m), s')
            \<longrightarrow> check ops cfg key c now tnow s = (Inr (fail_open cfg (Some m) tnow), s'))
       \<and> allowed (fail_open cfg (Some m) tnow)
       \<and> remaining (fail_open cfg (Some m) tnow) = cfg_max cfg
       \<and> retryAfter (fail_open cfg (Some m) tnow) = Some 0
       \<and> error (fail_open cfg (Some m) tnow) = Some m
       \<and> ((\<forall>e. resolve_max (cfg_max cfg) (req c) = Inl e \<longrightarrow> (\<exists>m'. e = Error m'))
            \<and> (\<forall>e. fst (algorithm_check (cfg_algorithm cfg) ops key (algo_options_of cfg c) now s)
                      = Inl e \<longrightarrow> (\<exists>m'. e = Error m'))
            \<longrightarrow> (\<exists>d t. check ops cfg key c now tnow s = (Inr d, t)))"
proof -
  have c1: "resolve_max (cfg_max cfg) (req c) = Inl (Error m) \<longrightarrow>
            check ops cfg key c now tnow s = (Inr (fail_open cfg (Some m) tnow), s)"
    using assms by (simp add: check_def catch_block_def)
  have c2: "resolve_max (cfg_max cfg) (req c) = Inr mx
            \<and> algorithm_check (cfg_algorithm cfg) ops key (algo_options_of cfg c) now s
                = (Inl (Error m), s')
            \<longrightarrow> check ops cfg key c now tnow s = (Inr (fail_open cfg (Some m) tnow), s')"
    using assms by (simp add: check_def catch_block_def)
  have c3: "resolve_max (cfg_max cfg) (req c) = Inr mx \<and> cfg_algorithm cfg \<noteq> FixedWindow
            \<and> store_get ops key s = (Inl (Error m), s')
            \<longrightarrow> check ops cfg key c now tnow s = (Inr (fail_open cfg (Some m) tnow), s')"
    using c2 get_raises_algorithm [of ops key s "Error m" s' "cfg_algorithm cfg"] by blast
  have c4: "resolve_max (cfg_max cfg) (req c) = Inr mx \<and> cfg_algorithm cfg = FixedWindow
            \<and> store_increment ops
                 (fullKey key (windowKey now (opt_windowMs (algo_options_of cfg c))))
                 (opt_windowMs (algo_options_of cfg c)) None s = (Inl (Error m), s')
            \<longrightarrow> check ops cfg key c now tnow s = (Inr (fail_open cfg (Some m) tnow), s')"
    using c2 increment_raises_fixed_window [of ops key now "algo_options_of cfg c" s "Error m" s']
    by auto
  have c5: "allowed (fail_open cfg (Some m) tnow)"
    and c6: "remaining (fail_open cfg (Some m) tnow) = cfg_max cfg"
    and c7: "retryAfter (fail_open cfg (Some m) tnow) = Some 0"
    and c8: "error (fail_open cfg (Some m) tnow) = Some m"
    by (simp_all add: fail_open_def)
  have c9: "(\<forall>e. resolve_max (cfg_max cfg) (req c) = Inl e \<longrightarrow> (\<exists>m'. e = Error m'))
            \<and> (\<forall>e. fst (algorithm_check (cfg_algorithm cfg) ops key (algo_options_of cfg c) now s)
                      = Inl e \<longrightarrow> (\<exists>m'. e = Error m'))
            \<longrightarrow> (\<exists>d t. check ops cfg key c now tnow s = (Inr d, t))"
    using assms
    by (auto simp: check_def catch_block_def split: sum.splits prod.splits)
  show ?thesis by (intro conjI c1 c2 c3 c4 c5 c6 c7 c8 c9)
qed

theorem check_fail_open_witness:
  "''k'' \<noteq> []
   \<and> check failing_store one_per_minute ''k'' (no_overrides ()) 2000 2003 () =
       (Inr \<lparr>allowed = True, limit = Static 1, current = 0, remaining = Static 1,
              resetTime = Some 62003, retryAfter = Some 0,
              error = Some ''connection refused''\<rparr>, ())"
proof -
  have k: "''k'' \<noteq> []" by simp
  have q: "resolve_max (cfg_max one_per_minute) (req (no_overrides ())) = Inr 1"
    by (simp add: one_per_minute_def)
  have a: "cfg_algorithm one_per_minute \<noteq> FixedWindow" by (simp add: one_per_minute_def)
  have g: "store_get failing_store ''k'' () = (Inl (Error ''connection refused''), ())"
    by (simp add: failing_store_def)
  show ?thesis
    using check_fail_open [OF k, of one_per_minute "no_overrides ()" "''connection refused''"
        failing_store 2000 2003 "()" 1 "()"] q a g
    by (simp add: fail_open_def one_per_minute_def)
qed

text \<open>
  What the catch block does with a value that is not an \<open>Error\<close>: a reason without a
  message leaves the \<open>error\<close> field \<open>undefined\<close>, and for a \<open>null\<close> or \<open>undefined\<close> reason
  the read of \<open>error.message\<close> raises a \<open>TypeError\<close> that \<open>check\<close> does not catch.
\<close>

lemma catch_block_cases:
  "catch_block cfg (Error m) tnow = Inr (fail_open cfg (Some m) tnow)"
  "catch_block cfg ThrownValue tnow = Inr (fail_open cfg None tnow)"
  "catch_block cfg ThrownNullish tnow = Inl TypeError"
  by (simp_all add: catch_block_def)

lemma rejection_without_reason_escapes:
  "check memory_ops rejecting_quota ''k'' (no_overrides ()) 2000 2003 new_memory_store =
     (Inl TypeError, new_memory_store)"
  by (simp add: check_def catch_block_def rejecting_quota_def)

section \<open>retryAfter\<close>




section \<open>Evaluating the fixed-window algorithm and the stores\<close>

lemma memory_ops_simps:
  "store_get memory_ops key s = (Inr (mem_get key s), s)"
  "store_set memory_ops key v ttl s = (Inr (), mem_set key v ttl s)"
  "store_increment memory_ops key w ts s = (case mem_increment key w ts s of (c, s') \<Rightarrow> (Inr c, s'))"
  "store_decrement memory_ops key s = (Inr (), mem_decrement key s)"
  "store_reset memory_ops key s = (Inr (), mem_reset key s)"
  by (simp_all add: memory_ops_def)

lemma fw_mem:
  "fixed_window_check memory_ops key options now s =
     (case mem_increment (fullKey key (windowKey now (opt_windowMs options))) (opt_windowMs options) None s of
        (c, s') \<Rightarrow> (Inr \<lparr>res_count = c,
                     res_resetTime = Some ((of_int (windowKey now (opt_windowMs options)) + 1) * opt_windowMs options)\<rparr>, s'))"
  by (simp add: fixed_window_check_def io_defs memory_ops_def Let_def split: prod.splits)

lemma window_5000: "windowKey 5000 1000 = 5" "windowKey 5001 1000 = 5"
  unfolding windowKey_def by code_simp+

lemma string_of_5: "string_of_int 5 = ''5''"
  by code_simp

lemmas fixed_eval = check_def reset_def decide_def algo_options_of_def no_overrides_def
  fw_mem window_5000 string_of_5 fullKey_def memory_ops_simps mem_increment_def mem_set_def
  mem_reset_def mem_decrement_def clear_timer_def new_memory_store_def empty_entry_def

text \<open>
  C5 under the fixed-window algorithm: \<open>reset(key)\<close> deletes the store key \<open>key\<close>, while
  the counter of the window lives under \<open>key:windowIndex\<close>. After one check, a reset
  and a second check in the same window, \<open>current\<close> is 2 and the request is denied by
  a limit of 1.
\<close>

theorem reset_keeps_fixed_window_count:
  "fst (check memory_ops one_per_second_fixed ''k'' (no_overrides ()) 5001 5001
     (snd (reset memory_ops ''k''
        (snd (check memory_ops one_per_second_fixed ''k'' (no_overrides ()) 5000 5000
               new_memory_store))))) =
   Inr \<lparr>allowed = False, limit = Static 1, current = 2, remaining = Static 0,
         resetTime = Some 6000, retryAfter = Some 999, error = None\<rparr>"
  by (simp add: fixed_eval one_per_second_fixed_def)

text \<open>
  C9 under the fixed-window algorithm: in window 5 the counter of the key \<open>a\<close> is the
  store key \<open>a:5\<close>, which \<open>reset\<close> of the distinct key \<open>a:5\<close> deletes. The second
  check of \<open>a\<close> reports \<open>current = 2\<close>, \<open>remaining = 3\<close> without that reset and
  \<open>current = 1\<close>, \<open>remaining = 4\<close> after it.
\<close>

theorem reset_of_suffixed_key_interferes:
  "fst (check memory_ops five_per_second_fixed ''a'' (no_overrides ()) 5001 5001
     (snd (check memory_ops five_per_second_fixed ''a'' (no_overrides ()) 5000 5000
               new_memory_store))) =
   Inr \<lparr>allowed = True, limit = Static 5, current = 2, remaining = Static 3,
         resetTime = Some 6000, retryAfter = Some 0, error = None\<rparr>
   \<and> fst (check memory_ops five_per_second_fixed ''a'' (no_overrides ()) 5001 5001
     (snd (reset memory_ops ''a:5''
        (snd (check memory_ops five_per_second_fixed ''a'' (no_overrides ()) 5000 5000
               new_memory_store))))) =
   Inr \<lparr>allowed = True, limit = Static 5, current = 1, remaining = Static 4,
         resetTime = Some 6000, retryAfter = Some 0, error = None\<rparr>"
  by (simp add: fixed_eval five_per_second_fixed_def)

lemmas redis_defs = redis_increment_def redis_decrement_def redis_get_def redis_set_def
  redis_reset_def getKey_def r_type_def r_get_def r_setex_def r_add_def r_incr_def r_decr_def
  r_expire_def r_del_def put_zset_def r_zremrangebyscore_upto_def r_zadd_def r_zcard_def
  r_zpopmax_def

text \<open>
  C6 on the remote store in sliding-window mode: \<open>increment\<close> keeps the timestamps in
  the sorted set \<open>rl:k:scores\<close>, \<open>decrement\<close> asks for the type of \<open>rl:k\<close>, finds no
  sorted set there and removes nothing.
\<close>

theorem redis_decrement_keeps_timestamps:
  "db two_hits ''rl:k:scores'' = Some (RZSet [(1000, ''1000-0.1''), (2000, ''2000-0.7'')])
   \<and> redis_decrement rl_store ''k'' two_hits = two_hits"
  by (simp add: two_hits_def rl_store_def empty_redis_def redis_defs Let_def)

lemma redis_decrement_sliding_noop:
  "db r (getKey rc key) = None \<Longrightarrow> redis_decrement rc key r = r"
  by (simp add: redis_decrement_def r_type_def r_get_def Let_def)

lemma redis_decrement_counter:
  "db r (getKey rc key) = Some (RInt i) \<Longrightarrow>
     db (redis_decrement rc key r) (getKey rc key) = Some (RInt (if 0 < i then i - 1 else i))"
  by (simp add: redis_decrement_def r_type_def r_get_def r_decr_def r_add_def Let_def)

lemma mem_decrement_absent: "store s key = None \<Longrightarrow> mem_decrement key s = s"
  by (simp add: mem_decrement_def)

lemma mem_decrement_counter:
  "store s key = Some d \<Longrightarrow> count d = Some c \<Longrightarrow>
     store (mem_decrement key s) key = Some (d\<lparr>count := Some (max 0 (c - 1))\<rparr>)"
  by (simp add: mem_decrement_def)

lemma mem_decrement_zero:
  "store s key = Some d \<Longrightarrow> count d = Some 0 \<Longrightarrow> mem_decrement key s = s"
  by (simp add: mem_decrement_def fun_upd_idem)

lemma mem_decrement_requests:
  "store s key = Some d \<Longrightarrow> count d = None \<Longrightarrow> requests d = Some rs \<Longrightarrow>
     store (mem_decrement key s) key = Some (d\<lparr>requests := Some (butlast rs)\<rparr>)"
  by (auto simp: mem_decrement_def)

section \<open>What reset and distinct keys do hold\<close>

lemma digit_char_not_colon:
  assumes "n < 10"
  shows "digit_char n \<noteq> CHR '':''"
proof
  assume "digit_char n = CHR '':''"
  then have "of_char (digit_char n) = (of_char (CHR '':'') :: nat)" by simp
  then have "48 + n = 58" using assms by (simp add: digit_char_def)
  then show False using assms by simp
qed

lemma string_of_nat_no_colon: "CHR '':'' \<notin> set (string_of_nat n)"
proof (induction n rule: string_of_nat.induct)
  case (1 n)
  show ?case
  proof (cases "n < 10")
    case True
    then show ?thesis using digit_char_not_colon[of n]
      by (simp add: string_of_nat.simps[of n])
  next
    case False
    then show ?thesis using 1 digit_char_not_colon[of "n mod 10"]
      by (simp add: string_of_nat.simps[of n])
  qed
qed

lemma string_of_int_no_colon: "CHR '':'' \<notin> set (string_of_int i)"
  by (simp add: string_of_int_def string_of_nat_no_colon)

lemma after_last_colon:
  assumes "CHR '':'' \<notin> set a" "CHR '':'' \<notin> set b" "k1 @ '':'' @ a = k2 @ '':'' @ b"
  shows "k1 = k2 \<and> a = b"
proof -
  have "rev a @ CHR '':'' # rev k1 = rev b @ CHR '':'' # rev k2"
    using arg_cong[OF assms(3), of rev] by simp
  then have "takeWhile (\<lambda>x. x \<noteq> CHR '':'') (rev a @ CHR '':'' # rev k1)
           = takeWhile (\<lambda>x. x \<noteq> CHR '':'') (rev b @ CHR '':'' # rev k2)" by simp
  moreover have "takeWhile (\<lambda>x. x \<noteq> CHR '':'') (rev a @ CHR '':'' # rev k1) = rev a"
    using assms(1) by (auto simp: takeWhile_tail)
  moreover have "takeWhile (\<lambda>x. x \<noteq> CHR '':'') (rev b @ CHR '':'' # rev k2) = rev b"
    using assms(2) by (auto simp: takeWhile_tail)
  ultimately have "a = b" by simp
  then show ?thesis using assms(3) by simp
qed

lemma fullKey_inj: "fullKey k1 w1 = fullKey k2 w2 \<Longrightarrow> k1 = k2"
  using after_last_colon[OF string_of_int_no_colon string_of_int_no_colon, of k1 w1 k2 w2]
  by (simp add: fullKey_def)

lemma fullKey_neq_key: "fullKey key wk \<noteq> key"
  by (simp add: fullKey_def)


lemma reset_misses_window_counter:
  "store (mem_reset key s) (fullKey key wk) = store s (fullKey key wk)"
  by (simp add: mem_reset_def fullKey_neq_key)

lemma store_mem_reset: "store (mem_reset key s) = (store s)(key := None)"
  by (simp add: mem_reset_def)

lemma lb_mem_none:
  assumes "store s key = None"
  shows "leaky_bucket_check memory_ops key options now s =
    (let C = default_to 10 (opt_capacity options);
         l = default_to 1 (opt_leakRate options);
         W = opt_windowMs options
     in if 0 < C
        then (Inr \<lparr>res_count = 0 + 1, res_resetTime = Some (now + ((0 + 1) / l) * W)\<rparr>,
              mem_set key (empty_entry\<lparr>water := Some (0 + 1), lastLeak := Some now\<rparr>) (Some (W * C)) s)
        else (Inr \<lparr>res_count = C + 1, res_resetTime = Some (now + ((0 - C + 1) / l) * W)\<rparr>, s))"
  unfolding leaky_bucket_check_def Let_def tb_consume assms option.case
  by (simp only: tb_set return_io_def if_distrib[of "\<lambda>m. m s"] cong: if_cong)

lemma reset_then_check_siblings:
  assumes "key \<noteq> []" and "resolve_max (cfg_max cfg) (req c) = Inr mx"
    and "cfg_algorithm cfg \<noteq> FixedWindow"
    and "now \<noteq> 0" and "1 \<le> default_to 10 (ctx_capacity c)"
  shows "\<exists>d s'. check memory_ops cfg key c now tnow (snd (reset memory_ops key s)) = (Inr d, s')
           \<and> current d = 1 \<and> (allowed d \<longleftrightarrow> 1 \<le> mx)"
proof -
  let ?s = "snd (reset memory_ops key s)"
  have ab: "store ?s key = None"
    using assms(1) by (simp add: reset_def memory_ops_simps store_mem_reset)
  have "\<exists>rt s'. algorithm_check (cfg_algorithm cfg) memory_ops key (algo_options_of cfg c) now ?s
           = (Inr \<lparr>res_count = 1, res_resetTime = rt\<rparr>, s')"
  proof (cases "cfg_algorithm cfg")
    case SlidingWindow
    then show ?thesis by (simp add: sw_mem_absent[OF ab assms(4)])
  next
    case FixedWindow
    then show ?thesis using assms(3) by simp
  next
    case TokenBucket
    then show ?thesis using assms(5)
      by (simp add: tb_mem_none[OF ab] Let_def algo_options_of_def)
  next
    case LeakyBucket
    then show ?thesis using assms(5)
      by (simp add: lb_mem_none[OF ab] Let_def algo_options_of_def)
  qed
  then obtain rt s' where
    "algorithm_check (cfg_algorithm cfg) memory_ops key (algo_options_of cfg c) now ?s
           = (Inr \<lparr>res_count = 1, res_resetTime = rt\<rparr>, s')" by blast
  then show ?thesis using assms(1,2) by (simp add: check_def decide_def)
qed


lemma mem_set_frame:
  "k \<noteq> key \<Longrightarrow> store (mem_set key v ttl s) k = store s k \<and> timers (mem_set key v ttl s) k = timers s k"
  by (simp add: store_mem_set timers_mem_set_other)

lemma mem_increment_frame:
  "k \<noteq> key \<Longrightarrow> store (snd (mem_increment key w ts s)) k = store s k
     \<and> timers (snd (mem_increment key w ts s)) k = timers s k"
  by (simp add: mem_increment_def Let_def mem_set_frame split: option.splits)

lemma mem_reset_frame:
  "k \<noteq> key \<Longrightarrow> store (mem_reset key s) k = store s k \<and> timers (mem_reset key s) k = timers s k"
  by (simp add: mem_reset_def)

lemma mem_decrement_frame:
  "k \<noteq> key \<Longrightarrow> store (mem_decrement key s) k = store s k
     \<and> timers (mem_decrement key s) k = timers s k"
  by (simp add: mem_decrement_def split: option.splits)

lemma algorithm_frame:
  assumes "k \<noteq> touched_key alg key options now"
  shows "store (snd (algorithm_check alg memory_ops key options now s)) k = store s k
       \<and> timers (snd (algorithm_check alg memory_ops key options now s)) k = timers s k"
proof (cases alg)
  case SlidingWindow
  then have k: "k \<noteq> key" using assms by (simp add: touched_key_def)
  show ?thesis using SlidingWindow k mem_increment_frame[OF k]
    by (auto simp: sliding_window_check_def sliding_first_def io_defs memory_ops_simps mem_get_def
        Let_def mem_set_frame case_prod_beta split: option.splits)
next
  case FixedWindow
  then have k: "k \<noteq> fullKey key (windowKey now (opt_windowMs options))"
    using assms by (simp add: touched_key_def)
  show ?thesis using FixedWindow mem_increment_frame[OF k]
    by (auto simp: fw_mem case_prod_beta)
next
  case TokenBucket
  then have k: "k \<noteq> key" using assms by (simp add: touched_key_def)
  show ?thesis using TokenBucket k
    by (auto simp: token_bucket_check_def io_defs memory_ops_simps mem_get_def
        Let_def mem_set_frame case_prod_beta split: option.splits)
next
  case LeakyBucket
  then have k: "k \<noteq> key" using assms by (simp add: touched_key_def)
  show ?thesis using LeakyBucket k
    by (auto simp: leaky_bucket_check_def io_defs memory_ops_simps mem_get_def
        Let_def mem_set_frame case_prod_beta split: option.splits)
qed


lemma mem_increment_local:
  "store s key = store t key \<Longrightarrow> fst (mem_increment key w ts s) = fst (mem_increment key w ts t)"
  by (simp add: mem_increment_def Let_def split: option.splits)

lemma state_free_return: "state_free (return_io x)"
  by (simp add: state_free_def return_io_def)

lemma state_free_set: "(\<And>u. state_free (f u)) \<Longrightarrow> state_free (bind_io (store_set memory_ops key v ttl) f)"
  by (simp add: state_free_def tb_set)

lemma state_free_if: "state_free m \<Longrightarrow> state_free n \<Longrightarrow> state_free (if b then m else n)"
  by simp

lemma state_free_first: "state_free (sliding_first memory_ops key w now)"
  by (simp add: state_free_def sliding_first_def io_defs memory_ops_simps case_prod_beta)

lemma get_then_state_free:
  assumes "\<And>d. state_free (f d)" and "store s key = store t key"
  shows "fst (bind_io (store_get memory_ops key) f s) = fst (bind_io (store_get memory_ops key) f t)"
  using assms by (simp add: tb_consume state_free_def)

lemma sliding_local:
  assumes "store s key = store t key"
  shows "fst (sliding_window_check memory_ops key options now s)
       = fst (sliding_window_check memory_ops key options now t)"
  unfolding sliding_window_check_def Let_def
  by (intro get_then_state_free assms)
     (auto intro!: state_free_first state_free_set state_free_return split: option.splits)

lemma token_local:
  assumes "store s key = store t key"
  shows "fst (token_bucket_check memory_ops key options now s)
       = fst (token_bucket_check memory_ops key options now t)"
  unfolding token_bucket_check_def Let_def
  by (intro get_then_state_free assms)
     (auto intro!: state_free_if state_free_set state_free_return split: option.splits)

lemma leaky_local:
  assumes "store s key = store t key"
  shows "fst (leaky_bucket_check memory_ops key options now s)
       = fst (leaky_bucket_check memory_ops key options now t)"
  unfolding leaky_bucket_check_def Let_def
  by (intro get_then_state_free assms)
     (auto intro!: state_free_if state_free_set state_free_return split: option.splits)

lemma fixed_local:
  assumes "store s (fullKey key (windowKey now (opt_windowMs options)))
         = store t (fullKey key (windowKey now (opt_windowMs options)))"
  shows "fst (fixed_window_check memory_ops key options now s)
       = fst (fixed_window_check memory_ops key options now t)"
  unfolding fw_mem case_prod_beta fst_conv
  by (simp only: mem_increment_local[OF assms])

lemma algorithm_local:
  assumes "store s (touched_key alg key options now) = store t (touched_key alg key options now)"
  shows "fst (algorithm_check alg memory_ops key options now s)
       = fst (algorithm_check alg memory_ops key options now t)"
proof (cases alg)
  case SlidingWindow
  with assms have "store s key = store t key" by (simp add: touched_key_def)
  from sliding_local[OF this] show ?thesis using SlidingWindow by simp
next
  case FixedWindow
  with assms have "store s (fullKey key (windowKey now (opt_windowMs options)))
         = store t (fullKey key (windowKey now (opt_windowMs options)))"
    by (simp add: touched_key_def)
  from fixed_local[OF this] show ?thesis using FixedWindow by simp
next
  case TokenBucket
  with assms have "store s key = store t key" by (simp add: touched_key_def)
  from token_local[OF this] show ?thesis using TokenBucket by simp
next
  case LeakyBucket
  with assms have "store s key = store t key" by (simp add: touched_key_def)
  from leaky_local[OF this] show ?thesis using LeakyBucket by simp
qed

lemma touched_in_record_keys: "touched_key alg key options now \<in> record_keys alg key"
  by (auto simp: touched_key_def record_keys_def)

lemma check_local:
  assumes "agree_on (record_keys (cfg_algorithm cfg) key) s t"
  shows "fst (check memory_ops cfg key c now tnow s) = fst (check memory_ops cfg key c now tnow t)"
proof -
  have "fst (algorithm_check (cfg_algorithm cfg) memory_ops key (algo_options_of cfg c) now s)
      = fst (algorithm_check (cfg_algorithm cfg) memory_ops key (algo_options_of cfg c) now t)"
    using assms touched_in_record_keys[of "cfg_algorithm cfg" key "algo_options_of cfg c" now]
    by (intro algorithm_local) (simp add: agree_on_def)
  then show ?thesis
    by (auto simp: check_def case_prod_beta split: sum.splits)
qed

lemma check_frame:
  assumes "k1 \<noteq> k2" "k \<in> record_keys (cfg_algorithm cfg) k2"
  shows "store (snd (check memory_ops cfg k1 c now tnow s)) k = store s k
       \<and> timers (snd (check memory_ops cfg k1 c now tnow s)) k = timers s k"
proof -
  have "k \<noteq> touched_key (cfg_algorithm cfg) k1 (algo_options_of cfg c) now"
    using assms fullKey_inj by (auto simp: touched_key_def record_keys_def split: if_splits)
  from algorithm_frame[OF this] show ?thesis
    by (auto simp: check_def case_prod_beta split: sum.splits)
qed

lemma run_call_frame:
  assumes "k1 \<noteq> k2" and "cfg_algorithm cfg = FixedWindow \<longrightarrow> (\<forall>w. k1 \<noteq> fullKey k2 w)"
    and "k \<in> record_keys (cfg_algorithm cfg) k2"
  shows "store (run_call cfg k1 call s) k = store s k \<and> timers (run_call cfg k1 call s) k = timers s k"
proof (cases call)
  case (CheckCall c now tnow)
  then show ?thesis using check_frame[OF assms(1,3)] by simp
next
  case ResetCall
  have "k \<noteq> k1" using assms by (auto simp: record_keys_def split: if_splits)
  then show ?thesis using ResetCall
    by (simp add: reset_def memory_ops_simps mem_reset_frame)
next
  case DecrementCall
  have "k \<noteq> k1" using assms by (auto simp: record_keys_def split: if_splits)
  then show ?thesis using DecrementCall
    by (simp add: memory_ops_simps mem_decrement_frame)
qed

lemma run_calls_frame:
  assumes "k1 \<noteq> k2" and "cfg_algorithm cfg = FixedWindow \<longrightarrow> (\<forall>w. k1 \<noteq> fullKey k2 w)"
  shows "agree_on (record_keys (cfg_algorithm cfg) k2) (run_calls cfg k1 calls s) s"
  unfolding run_calls_def
proof (induction calls arbitrary: s)
  case Nil
  then show ?case by (simp add: agree_on_def)
next
  case (Cons call calls)
  have "agree_on (record_keys (cfg_algorithm cfg) k2) (run_call cfg k1 call s) s"
    using run_call_frame[OF assms] by (simp add: agree_on_def)
  with Cons[of "run_call cfg k1 call s"] show ?case by (simp add: agree_on_def)
qed

lemma key_independence:
  assumes "k1 \<noteq> k2" and "cfg_algorithm cfg = FixedWindow \<longrightarrow> (\<forall>w. k1 \<noteq> fullKey k2 w)"
  shows "fst (check memory_ops cfg k2 c now tnow (run_calls cfg k1 calls s))
       = fst (check memory_ops cfg k2 c now tnow s)"
  by (rule check_local[OF run_calls_frame[OF assms]])

lemma checks_never_interfere:
  assumes "k1 \<noteq> k2"
  shows "fst (check memory_ops cfg k2 c now tnow (snd (check memory_ops cfg k1 c' now' tnow' s)))
       = fst (check memory_ops cfg k2 c now tnow s)"
  using check_frame[OF assms, where cfg = cfg and c = c' and now = now' and tnow = tnow' and s = s]
  by (intro check_local) (simp add: agree_on_def)

section \<open>The sliding-window algorithm on the RedisStore\<close>

text \<open>
  \<open>increment\<close> with a timestamp writes the sorted set under the scores key only, and
  \<open>get\<close> reads the plain key: a key whose plain entry is absent stays so, and every
  check of it takes the first-request branch.
\<close>

lemma redis_increment_keeps_plain_key:
  assumes "ts \<noteq> 0"
  shows "db (snd (redis_increment rc rnow member key w (Some ts) r)) (getKey rc key) = db r (getKey rc key)"
  using assms
  by (auto simp: redis_increment_def Let_def r_zremrangebyscore_upto_def r_zadd_def r_expire_def
      r_zcard_def put_zset_def r_del_def split: option.splits rvalue.splits)

lemma sliding_window_on_redis:
  assumes "db r (getKey rc key) = None" and "now \<noteq> 0"
    and "sliding_window_check (redis_ops rc rnow member) key options now r = (Inr res, r')"
  shows "res = \<lparr>res_count = 1, res_resetTime = Some (now + opt_windowMs options)\<rparr>
       \<and> db r' (getKey rc key) = None"
proof -
  have g: "redis_get rc key r = None" using assms(1) by (simp add: redis_get_def r_get_def)
  have "snd (sliding_window_check (redis_ops rc rnow member) key options now r)
        = snd (redis_increment rc rnow member key (opt_windowMs options) (Some now) r)"
    by (auto simp: sliding_window_check_def sliding_first_def io_defs Let_def redis_ops_def g
        split: prod.splits sum.splits)
  then have "db r' (getKey rc key) = None"
    using assms redis_increment_keeps_plain_key[OF assms(2)] by simp
  moreover have "res = \<lparr>res_count = 1, res_resetTime = Some (now + opt_windowMs options)\<rparr>"
    using assms(3)
    by (auto simp: sliding_window_check_def sliding_first_def io_defs Let_def redis_ops_def g
        split: prod.splits sum.splits)
  ultimately show ?thesis by simp
qed

text \<open>
  C3. The claim is for every store, and the \<open>RedisStore\<close> of the library does not
  behave so: the sliding-window check reads the list with \<open>get\<close>, under the plain key,
  while \<open>increment\<close> keeps the timestamps in the sorted set of the scores key. After a
  check of \<open>k\<close> at 1000 the timestamp 1000 is stored; the check at 2000 with a window of
  one minute retains it, and returns count 1 and \<open>resetTime\<close> 62000, where the claim
  says 2 and 61000. The in-memory store returns those.
\<close>

theorem sliding_window_redis_count_stays_one:
  "db one_hit ''rl:k:scores'' = Some (RZSet [(1000, ''1000-0.1'')])
   \<and> fst (sliding_window_check (redis_ops rl_store 2000 ''2000-0.7'') ''k'' minute_window 2000
            one_hit) =
       Inr \<lparr>res_count = 1, res_resetTime = Some 62000\<rparr>
   \<and> fst (sliding_window_check memory_ops ''k'' minute_window 2000
            (snd (sliding_window_check memory_ops ''k'' minute_window 1000 new_memory_store))) =
       Inr \<lparr>res_count = 2, res_resetTime = Some 61000\<rparr>"
proof -
  have a: "one_hit = \<lparr>db = [''rl:k:scores'' \<mapsto> RZSet [(1000, ''1000-0.1'')]],
                      expiry = [''rl:k:scores'' \<mapsto> 61]\<rparr>"
    by (simp add: one_hit_def empty_redis_def rl_store_def minute_window_def redis_ops_def
        redis_defs io_defs sliding_window_check_def sliding_first_def Let_def)
  have b: "fst (sliding_window_check (redis_ops rl_store 2000 ''2000-0.7'') ''k'' minute_window 2000
            one_hit) = Inr \<lparr>res_count = 1, res_resetTime = Some 62000\<rparr>"
    unfolding a
    by (simp add: rl_store_def minute_window_def redis_ops_def redis_defs io_defs
        sliding_window_check_def sliding_first_def Let_def)
  have c: "fst (sliding_window_check memory_ops ''k'' minute_window 2000
            (snd (sliding_window_check memory_ops ''k'' minute_window 1000 new_memory_store))) =
       Inr \<lparr>res_count = 2, res_resetTime = Some 61000\<rparr>"
    by (simp add: minute_window_def io_defs memory_defs algorithm_defs)
  have d: "db one_hit ''rl:k:scores'' = Some (RZSet [(1000, ''1000-0.1'')])"
    unfolding a by simp
  show ?thesis by (intro conjI d b c)
qed

text \<open>
  The reset time is that of the first retained timestamp of the list, which is the
  oldest one as long as the clock has not been set back between two checks.
\<close>

lemma sliding_window_after_clock_set_back:
  "fst (sliding_window_check memory_ops ''k'' minute_window 2500 clock_set_back) =
     Inr \<lparr>res_count = 3, res_resetTime = Some 63000\<rparr>"
  by (simp add: clock_set_back_def minute_window_def io_defs memory_defs algorithm_defs)

end
